theory Spec2Isabelle
  imports Main "HOL-Library.AList"
begin

section \<open>Results and errors (core/result.ts, core/errors.ts)\<close>

text \<open>
  Every store operation resolves to a tagged \<open>Result\<close>: \<open>Ok value\<close> or \<open>Err error\<close>.
  An error carries its code and the context object built at the place it is created.
\<close>

datatype StoreErrorCode =
    CONNECTION_FAILED | OPERATION_FAILED | SERIALIZATION_FAILED
  | DESERIALIZATION_FAILED | KEY_NOT_FOUND | INVALID_KEY

datatype error =
    StoreError StoreErrorCode string
      \<comment> \<open>createStoreError(message, code, {key}): the code and the key (or pattern) of the context\<close>
  | FETCH_FAILED string int string
      \<comment> \<open>createCacheError(.., CacheErrorCode.FETCH_FAILED, {key, retryCount, lastError})\<close>
  | STORE_FAILED string error
      \<comment> \<open>createCacheError(.., CacheErrorCode.STORE_FAILED, {key, storeError})\<close>

datatype 'a result = Ok 'a | Err error

fun is_ok :: "'a result \<Rightarrow> bool" where
  "is_ok (Ok _) = True"
| "is_ok (Err _) = False"

section \<open>The store contract's option and metadata types (core/contracts/key-value-store.ts)\<close>

text \<open>
  An optional field of the source is an \<open>option\<close>; \<open>undefined\<close> is \<open>None\<close>. A call that
  passes no options object is a call with every field \<open>None\<close>. Timestamps and durations
  are integers of milliseconds; \<open>Date.now()\<close> is the argument \<open>now\<close> of each operation.
\<close>

record SetOptions =
  ttlMs :: "int option"
  overwrite :: "bool option"

record 'v GetOptions =
  refreshTtl :: "bool option"
  defaultValue :: "'v option"

definition noSetOptions :: SetOptions where
  "noSetOptions = \<lparr>ttlMs = None, overwrite = None\<rparr>"

definition noGetOptions :: "'v GetOptions" where
  "noGetOptions = \<lparr>refreshTtl = None, defaultValue = None\<rparr>"

record ValueMetadata =
  createdAt :: int
  lastAccessedAt :: int
  expiresAt :: "int option"
  sizeBytes :: int
  accessCount :: int

record 'v BatchSetOperation =
  op_key :: string
  op_value :: 'v
  op_options :: SetOptions

section \<open>The Cache Engine (EnhancedMemoryStore)\<close>

text \<open>
  The methods of the class \<open>EnhancedMemoryStore\<close> carry the prefix \<open>ems_\<close>
  (\<open>ems_get\<close> is \<open>EnhancedMemoryStore.get\<close>), those of \<open>MultiTierStore\<close> further down
  the prefix \<open>mts_\<close>; private helpers keep their names. Each method takes the store
  and returns its result with the store it leaves.
\<close>

record 'v InMemoryEntry =
  val :: 'v
  metadata :: ValueMetadata

record MemStats =
  keyCount :: int
  memoryUsageBytes :: int
  hits :: int
  misses :: int
  evictions :: int
  expirations :: int

text \<open>
  The JavaScript \<open>Map\<close> keeps insertion order, so the map is an association list:
  \<open>Map.set\<close> replaces in place or appends (\<open>AList.update\<close>), \<open>Map.delete\<close> removes
  (\<open>AList.delete\<close>), \<open>Map.get\<close> is \<open>map_of\<close>. The recency list (the doubly linked list
  between \<open>lruHead\<close> and \<open>lruTail\<close>, one node per key through \<open>keyToNode\<close>) is the list of
  its keys from head to tail.
\<close>

record 'v EnhancedMemoryStore =
  smap :: "(string \<times> 'v InMemoryEntry) list"
  lru :: "string list"
  stats :: MemStats
  maxMemoryBytes :: "int option"

definition emptyStats :: MemStats where
  "emptyStats = \<lparr>keyCount = 0, memoryUsageBytes = 0, hits = 0, misses = 0,
                  evictions = 0, expirations = 0\<rparr>"

definition newStore :: "int option \<Rightarrow> 'v EnhancedMemoryStore" where
  "newStore maxBytes = \<lparr>smap = [], lru = [], stats = emptyStats, maxMemoryBytes = maxBytes\<rparr>"

text \<open>JavaScript truthiness of an optional number: defined and not zero.\<close>

fun truthy :: "int option \<Rightarrow> bool" where
  "truthy None = False"
| "truthy (Some n) = (n \<noteq> 0)"

text \<open>\<open>isExpired\<close>: \<open>expiresAt !== undefined && expiresAt <= Date.now()\<close>.\<close>

definition isExpired :: "'v InMemoryEntry \<Rightarrow> int \<Rightarrow> bool" where
  "isExpired entry now =
     (case expiresAt (metadata entry) of None \<Rightarrow> False | Some e \<Rightarrow> e \<le> now)"

definition moveToHead :: "string \<Rightarrow> string list \<Rightarrow> string list" where
  "moveToHead key l = key # remove1 key l"

definition removeFromLRU :: "string \<Rightarrow> string list \<Rightarrow> string list" where
  "removeFromLRU key l = remove1 key l"

text \<open>
  The lazy expiration that \<open>get\<close>, \<open>has\<close>, \<open>getTtl\<close> and \<open>sizeof\<close> share:
  \<open>map.delete(key); removeFromLRU(key); stats.expirations++\<close>.
\<close>

definition expireLazily :: "string \<Rightarrow> 'v EnhancedMemoryStore \<Rightarrow> 'v EnhancedMemoryStore" where
  "expireLazily key s =
     s\<lparr>smap := AList.delete key (smap s),
       lru := removeFromLRU key (lru s),
       stats := (stats s)\<lparr>expirations := expirations (stats s) + 1\<rparr>\<rparr>"

definition countMiss :: "'v EnhancedMemoryStore \<Rightarrow> 'v EnhancedMemoryStore" where
  "countMiss s = s\<lparr>stats := (stats s)\<lparr>misses := misses (stats s) + 1\<rparr>\<rparr>"

definition refreshedMetadata :: "bool option \<Rightarrow> int \<Rightarrow> ValueMetadata \<Rightarrow> ValueMetadata" where
  "refreshedMetadata refresh now m =
     (case expiresAt m of
        None \<Rightarrow> m
      | Some e \<Rightarrow>
          if refresh = Some True \<and> e \<noteq> 0
          then (let originalTtl = e - createdAt m in m\<lparr>expiresAt := Some (now + originalTtl)\<rparr>)
          else m)"

definition ems_get ::
  "'v EnhancedMemoryStore \<Rightarrow> string \<Rightarrow> 'v GetOptions \<Rightarrow> int
     \<Rightarrow> 'v option result \<times> 'v EnhancedMemoryStore" where
  "ems_get s key options now =
     (case map_of (smap s) key of
        None \<Rightarrow> (Ok (defaultValue options), countMiss s)
      | Some entry \<Rightarrow>
          if isExpired entry now
          then (Ok (defaultValue options), countMiss (expireLazily key s))
          else
            (let m = metadata entry;
                 m1 = m\<lparr>lastAccessedAt := now, accessCount := accessCount m + 1\<rparr>;
                 m2 = refreshedMetadata (refreshTtl options) now m1
             in (Ok (Some (val entry)),
                 s\<lparr>smap := AList.update key (entry\<lparr>metadata := m2\<rparr>) (smap s),
                   lru := moveToHead key (lru s),
                   stats := (stats s)\<lparr>hits := hits (stats s) + 1\<rparr>\<rparr>)))"

definition ems_has ::
  "'v EnhancedMemoryStore \<Rightarrow> string \<Rightarrow> int \<Rightarrow> bool result \<times> 'v EnhancedMemoryStore" where
  "ems_has s key now =
     (case map_of (smap s) key of
        None \<Rightarrow> (Ok False, s)
      | Some entry \<Rightarrow>
          if isExpired entry now then (Ok False, expireLazily key s) else (Ok True, s))"

definition ems_getTtl ::
  "'v EnhancedMemoryStore \<Rightarrow> string \<Rightarrow> int \<Rightarrow> int option result \<times> 'v EnhancedMemoryStore" where
  "ems_getTtl s key now =
     (case map_of (smap s) key of
        None \<Rightarrow> (Ok None, s)
      | Some entry \<Rightarrow>
          if isExpired entry now then (Ok None, expireLazily key s)
          else if \<not> truthy (expiresAt (metadata entry)) then (Ok None, s)
          else (case expiresAt (metadata entry) of
                  None \<Rightarrow> (Ok None, s)
                | Some e \<Rightarrow> (Ok (Some (max 0 (e - now))), s)))"

definition ems_sizeof ::
  "'v EnhancedMemoryStore \<Rightarrow> string \<Rightarrow> int \<Rightarrow> int option result \<times> 'v EnhancedMemoryStore" where
  "ems_sizeof s key now =
     (case map_of (smap s) key of
        None \<Rightarrow> (Ok None, s)
      | Some entry \<Rightarrow>
          if isExpired entry now then (Ok None, expireLazily key s)
          else (Ok (Some (sizeBytes (metadata entry))), s))"

text \<open>
  What \<open>delete\<close>, \<open>cleanup\<close> and \<open>evict\<close> share when they destroy an entry:
  \<open>map.delete(key); removeFromLRU(key); stats.keyCount--;
  stats.memoryUsageBytes -= entry.metadata.sizeBytes\<close>.
\<close>

definition removeAccounted ::
  "string \<Rightarrow> 'v InMemoryEntry \<Rightarrow> 'v EnhancedMemoryStore \<Rightarrow> 'v EnhancedMemoryStore" where
  "removeAccounted key entry s =
     s\<lparr>smap := AList.delete key (smap s),
       lru := removeFromLRU key (lru s),
       stats := (stats s)\<lparr>keyCount := keyCount (stats s) - 1,
                          memoryUsageBytes :=
                            memoryUsageBytes (stats s) - sizeBytes (metadata entry)\<rparr>\<rparr>"

definition ems_delete ::
  "'v EnhancedMemoryStore \<Rightarrow> string \<Rightarrow> bool result \<times> 'v EnhancedMemoryStore" where
  "ems_delete s key =
     (case map_of (smap s) key of
        None \<Rightarrow> (Ok False, s)
      | Some entry \<Rightarrow> (Ok True, removeAccounted key entry s))"

text \<open>
  \<open>cleanup\<close> walks the entries in insertion order and removes each one whose
  \<open>expiresAt\<close> is truthy and not after \<open>now\<close>.
\<close>

definition cleanupStep ::
  "int \<Rightarrow> string \<times> 'v InMemoryEntry \<Rightarrow> int \<times> 'v EnhancedMemoryStore
     \<Rightarrow> int \<times> 'v EnhancedMemoryStore" where
  "cleanupStep now ke acc =
     (case ke of (key, entry) \<Rightarrow>
        (case acc of (expiredCount, s) \<Rightarrow>
           (case expiresAt (metadata entry) of
              None \<Rightarrow> (expiredCount, s)
            | Some e \<Rightarrow>
                if e \<noteq> 0 \<and> e \<le> now
                then (expiredCount + 1,
                      (removeAccounted key entry s)
                        \<lparr>stats := (stats (removeAccounted key entry s))
                           \<lparr>expirations := expirations (stats s) + 1\<rparr>\<rparr>)
                else (expiredCount, s))))"

definition ems_cleanup ::
  "'v EnhancedMemoryStore \<Rightarrow> int \<Rightarrow> int result \<times> 'v EnhancedMemoryStore" where
  "ems_cleanup s now =
     (case fold (cleanupStep now) (smap s) (0, s) of
        (expiredCount, s') \<Rightarrow> (Ok expiredCount, s'))"

text \<open>
  \<open>evict\<close> walks the recency list from the tail towards the head. Unlinking a node leaves
  its own \<open>prev\<close> pointer in place, so the walk visits the nodes that were in the list
  when it started: the reversed list of keys.
\<close>

fun evictLoop ::
  "string list \<Rightarrow> int \<Rightarrow> int \<Rightarrow> string list \<Rightarrow> 'v EnhancedMemoryStore
     \<Rightarrow> string list \<times> 'v EnhancedMemoryStore" where
  "evictLoop [] count evicted evictedKeys s = (evictedKeys, s)"
| "evictLoop (key # rest) count evicted evictedKeys s =
     (if evicted < count
      then (case map_of (smap s) key of
              Some entry \<Rightarrow>
                evictLoop rest count (evicted + 1) (evictedKeys @ [key])
                  ((removeAccounted key entry s)
                     \<lparr>stats := (stats (removeAccounted key entry s))
                        \<lparr>evictions := evictions (stats s) + 1\<rparr>\<rparr>)
            | None \<Rightarrow> evictLoop rest count evicted evictedKeys s)
      else (evictedKeys, s))"

definition ems_evict ::
  "'v EnhancedMemoryStore \<Rightarrow> int \<Rightarrow> string list result \<times> 'v EnhancedMemoryStore" where
  "ems_evict s count =
     (case evictLoop (rev (lru s)) count 0 [] s of (ks, s') \<Rightarrow> (Ok ks, s'))"

text \<open>
  \<open>evictToMakeSpace\<close> evicts in batches of ten while the accounted memory exceeds
  \<open>maxBytes - requiredBytes\<close>, and stops when a batch evicts nothing. Every batch that
  evicts something shortens the map, which is the loop's termination argument.
\<close>

lemma delete_shorter:
  "map_of m key = Some entry \<Longrightarrow> length (AList.delete key m) < length m"
proof (induction m)
  case Nil then show ?case by simp
next
  case (Cons p m)
  have le: "length (AList.delete key m) \<le> length m"
    by (simp add: AList.delete_eq)
  show ?case
  proof (cases "fst p = key")
    case True
    with le show ?thesis by (cases p) (simp add: AList.delete_eq less_Suc_eq_le)
  next
    case False
    with Cons show ?thesis by (cases p) (auto simp: AList.delete_eq)
  qed
qed

lemma evictLoop_length:
  "evictLoop ks c e acc s = (acc', s') \<Longrightarrow>
     length (smap s') + length acc' \<le> length (smap s) + length acc"
proof (induction ks c e acc s rule: evictLoop.induct)
  case (1 count evicted evictedKeys s)
  then show ?case by simp
next
  case (2 key rest count evicted evictedKeys s)
  show ?case
  proof (cases "evicted < count")
    case False
    with 2(3) show ?thesis by simp
  next
    case True
    show ?thesis
    proof (cases "map_of (smap s) key")
      case None
      with True 2(1) 2(3) show ?thesis by simp
    next
      case (Some entry)
      let ?s1 = "(removeAccounted key entry s)
                     \<lparr>stats := (stats (removeAccounted key entry s))
                        \<lparr>evictions := evictions (stats s) + 1\<rparr>\<rparr>"
      from True Some 2(3) have "evictLoop rest count (evicted + 1) (evictedKeys @ [key]) ?s1 = (acc', s')"
        by simp
      from 2(2)[OF True Some this]
      have "length (smap s') + length acc' \<le> length (smap ?s1) + length (evictedKeys @ [key])" .
      moreover have "length (smap ?s1) < length (smap s)"
        using delete_shorter[OF Some] by (simp add: removeAccounted_def)
      ultimately show ?thesis by simp
    qed
  qed
qed

function evictUntil :: "int \<Rightarrow> 'v EnhancedMemoryStore \<Rightarrow> 'v EnhancedMemoryStore" where
  "evictUntil targetBytes s =
     (if memoryUsageBytes (stats s) > targetBytes
      then (case evictLoop (rev (lru s)) 10 0 [] s of
              (ks, s') \<Rightarrow> if ks = [] then s' else evictUntil targetBytes s')
      else s)"
  by pat_completeness auto
termination
proof (relation "measure (\<lambda>(t, s). length (smap s))")
  show "wf (measure (\<lambda>(t :: int, s :: 'v EnhancedMemoryStore). length (smap s)))" by simp
next
  fix targetBytes :: int and s :: "'v EnhancedMemoryStore" and ks s'
  assume "targetBytes < memoryUsageBytes (stats s)"
    and p: "(ks, s') = evictLoop (rev (lru s)) 10 0 [] s"
    and ne: "ks \<noteq> []"
  from p have "evictLoop (rev (lru s)) 10 0 [] s = (ks, s')" by simp
  from evictLoop_length[OF this] ne have "length (smap s') < length (smap s)"
    by (cases ks) auto
  then show "((targetBytes, s'), (targetBytes, s)) \<in> measure (\<lambda>(t, s). length (smap s))"
    by simp
qed


definition evictToMakeSpace ::
  "'v EnhancedMemoryStore \<Rightarrow> int \<Rightarrow> 'v EnhancedMemoryStore" where
  "evictToMakeSpace s requiredBytes =
     (case maxMemoryBytes s of
        None \<Rightarrow> s
      | Some maxBytes \<Rightarrow>
          if maxBytes = 0 then s else evictUntil (maxBytes - requiredBytes) s)"

text \<open>
  \<open>set\<close>. \<open>calculateSize\<close> is \<open>JSON.stringify(value).length * 2\<close>; \<open>JSON.stringify\<close>
  is the runtime's, so the size function is the parameter \<open>calculateSize\<close>, with \<open>None\<close>
  where it throws (a value that has no JSON text), which the \<open>catch\<close> turns into an
  \<open>OPERATION_FAILED\<close> error. \<open>existing\<close> is read before any eviction and used after it.
\<close>

fun numberOr0 :: "int option \<Rightarrow> int" where
  "numberOr0 None = 0"
| "numberOr0 (Some n) = n"

definition existingSize :: "'v InMemoryEntry option \<Rightarrow> int" where
  "existingSize existing =
     (case existing of None \<Rightarrow> 0 | Some e \<Rightarrow> sizeBytes (metadata e))"

definition ems_set ::
  "('v \<Rightarrow> int option) \<Rightarrow> 'v EnhancedMemoryStore \<Rightarrow> string \<Rightarrow> 'v \<Rightarrow> SetOptions \<Rightarrow> int
     \<Rightarrow> unit result \<times> 'v EnhancedMemoryStore" where
  "ems_set calculateSize s key v options now =
     (let existing = map_of (smap s) key in
      if existing \<noteq> None \<and> overwrite options = Some False
      then (Err (StoreError OPERATION_FAILED key), s)
      else
        (case calculateSize v of
           None \<Rightarrow> (Err (StoreError OPERATION_FAILED key), s)
         | Some sz \<Rightarrow>
             (let s1 = (if truthy (maxMemoryBytes s) \<and>
                           memoryUsageBytes (stats s) + sz - existingSize existing
                             > numberOr0 (maxMemoryBytes s)
                        then evictToMakeSpace s sz else s);
                  meta = \<lparr>createdAt = now, lastAccessedAt = now,
                          expiresAt = (if truthy (ttlMs options)
                                       then Some (now + numberOr0 (ttlMs options))
                                       else None),
                          sizeBytes = sz, accessCount = 1\<rparr>;
                  entry = \<lparr>val = v, metadata = meta\<rparr>;
                  st = stats s1;
                  st1 = (if existing = None then st\<lparr>keyCount := keyCount st + 1\<rparr> else st);
                  st2 = st1\<lparr>memoryUsageBytes :=
                              memoryUsageBytes st1 + (sz - existingSize existing)\<rparr>
              in (Ok (),
                  s1\<lparr>smap := AList.update key entry (smap s1),
                     lru := moveToHead key (lru s1),
                     stats := st2\<rparr>))))"



text \<open>\<open>mset\<close> applies \<open>set\<close> to each operation in order and sorts the keys by outcome.\<close>

record BatchResult =
  successful :: "string list"
  failed :: "(string \<times> error) list"

fun msetLoop ::
  "('v \<Rightarrow> int option) \<Rightarrow> 'v BatchSetOperation list \<Rightarrow> int \<Rightarrow> BatchResult
     \<Rightarrow> 'v EnhancedMemoryStore \<Rightarrow> BatchResult \<times> 'v EnhancedMemoryStore" where
  "msetLoop calculateSize [] now acc s = (acc, s)"
| "msetLoop calculateSize (op # ops) now acc s =
     (case ems_set calculateSize s (op_key op) (op_value op) (op_options op) now of
        (Ok _, s') \<Rightarrow>
          msetLoop calculateSize ops now (acc\<lparr>successful := successful acc @ [op_key op]\<rparr>) s'
      | (Err e, s') \<Rightarrow>
          msetLoop calculateSize ops now (acc\<lparr>failed := failed acc @ [(op_key op, e)]\<rparr>) s')"

definition ems_mset ::
  "('v \<Rightarrow> int option) \<Rightarrow> 'v EnhancedMemoryStore \<Rightarrow> 'v BatchSetOperation list \<Rightarrow> int
     \<Rightarrow> BatchResult result \<times> 'v EnhancedMemoryStore" where
  "ems_mset calculateSize s operations now =
     (case msetLoop calculateSize operations now \<lparr>successful = [], failed = []\<rparr> s of
        (r, s') \<Rightarrow> (Ok r, s'))"

section \<open>The store contract as an interface\<close>

text \<open>
  \<open>IKeyValueStore\<close>: the operations the tiered store and \<open>cacheItem\<close> call, over a state
  type of the implementation's own. Every operation resolves to a \<open>Result\<close> and returns
  the implementation's next state. The contract's return type is
  \<open>Promise<Result<..>>\<close> and its implementations catch what they throw, so a rejected
  promise is not an outcome of a tier call: the \<open>catch\<close> blocks that \<open>MultiTierStore\<close>
  and \<open>cacheItem\<close> wrap around their tier calls have no branch here.
\<close>

record ('s, 'v) KeyValueStore =
  st_get :: "'s \<Rightarrow> string \<Rightarrow> 'v GetOptions \<Rightarrow> int \<Rightarrow> 'v option result \<times> 's"
  st_set :: "'s \<Rightarrow> string \<Rightarrow> 'v \<Rightarrow> SetOptions \<Rightarrow> int \<Rightarrow> unit result \<times> 's"
  st_delete :: "'s \<Rightarrow> string \<Rightarrow> int \<Rightarrow> bool result \<times> 's"
  st_mset :: "'s \<Rightarrow> 'v BatchSetOperation list \<Rightarrow> int \<Rightarrow> BatchResult result \<times> 's"

definition enhancedMemoryStore ::
  "('v \<Rightarrow> int option) \<Rightarrow> ('v EnhancedMemoryStore, 'v) KeyValueStore" where
  "enhancedMemoryStore calculateSize =
     \<lparr>st_get = ems_get,
      st_set = ems_set calculateSize,
      st_delete = (\<lambda>s key now. ems_delete s key),
      st_mset = ems_mset calculateSize\<rparr>"

section \<open>The Tiered Orchestrator (MultiTierStore)\<close>

record MultiTierConfigInput =
  in_l1TtlMs :: "int option"
  in_l2TtlMs :: "int option"
  in_populateL1OnL2Hit :: "bool option"
  in_writeThrough :: "bool option"
  in_writeBehind :: "bool option"
  in_writeBehindDelayMs :: "int option"

record MultiTierConfig =
  l1TtlMs :: int
  l2TtlMs :: int
  populateL1OnL2Hit :: bool
  writeThrough :: bool
  writeBehind :: bool
  writeBehindDelayMs :: int

text \<open>\<open>a ?? b\<close>: \<open>b\<close> only where \<open>a\<close> is undefined.\<close>

fun orElse :: "'a option \<Rightarrow> 'a \<Rightarrow> 'a" where
  "orElse None d = d"
| "orElse (Some a) d = a"

text \<open>The constructor's defaults.\<close>

definition mergeConfig :: "MultiTierConfigInput \<Rightarrow> MultiTierConfig" where
  "mergeConfig config =
     \<lparr>l1TtlMs = orElse (in_l1TtlMs config) (60 * 1000),
      l2TtlMs = orElse (in_l2TtlMs config) (60 * 60 * 1000),
      populateL1OnL2Hit = orElse (in_populateL1OnL2Hit config) True,
      writeThrough = orElse (in_writeThrough config) True,
      writeBehind = orElse (in_writeBehind config) False,
      writeBehindDelayMs = orElse (in_writeBehindDelayMs config) 5000\<rparr>"

text \<open>
  The calls a tier receives are recorded in \<open>calls\<close>, oldest first. The field is not in
  the source: it is the observation that claims about "a durable-tier call" speak of.
  The tier calls of one orchestrator operation are awaited one after the other; they
  carry the one clock reading \<open>now\<close> of that operation.
\<close>

datatype tier = L1 | L2

datatype 'v storeCall =
    GetCall string "'v GetOptions"
  | SetCall string 'v SetOptions
  | DeleteCall string
  | MSetCall "'v BatchSetOperation list"

record 'v QueuedWrite =
  q_value :: 'v
  q_options :: SetOptions
  q_timestamp :: int

record ('s1, 's2, 'v) MultiTierStore =
  l1Cache :: 's1
  l2Cache :: 's2
  writeBehindQueue :: "(string \<times> 'v QueuedWrite) list"
  calls :: "(tier \<times> 'v storeCall) list"

definition callsTo :: "tier \<Rightarrow> (tier \<times> 'v storeCall) list \<Rightarrow> 'v storeCall list" where
  "callsTo t cs = map snd (filter (\<lambda>c. fst c = t) cs)"

definition callL1get ::
  "('s1, 'v) KeyValueStore \<Rightarrow> ('s1, 's2, 'v) MultiTierStore \<Rightarrow> string \<Rightarrow> 'v GetOptions \<Rightarrow> int
     \<Rightarrow> 'v option result \<times> ('s1, 's2, 'v) MultiTierStore" where
  "callL1get l1 st key options now =
     (case st_get l1 (l1Cache st) key options now of
        (r, c) \<Rightarrow> (r, st\<lparr>l1Cache := c, calls := calls st @ [(L1, GetCall key options)]\<rparr>))"

definition callL2get ::
  "('s2, 'v) KeyValueStore \<Rightarrow> ('s1, 's2, 'v) MultiTierStore \<Rightarrow> string \<Rightarrow> 'v GetOptions \<Rightarrow> int
     \<Rightarrow> 'v option result \<times> ('s1, 's2, 'v) MultiTierStore" where
  "callL2get l2 st key options now =
     (case st_get l2 (l2Cache st) key options now of
        (r, c) \<Rightarrow> (r, st\<lparr>l2Cache := c, calls := calls st @ [(L2, GetCall key options)]\<rparr>))"

definition callL1set ::
  "('s1, 'v) KeyValueStore \<Rightarrow> ('s1, 's2, 'v) MultiTierStore \<Rightarrow> string \<Rightarrow> 'v \<Rightarrow> SetOptions \<Rightarrow> int
     \<Rightarrow> unit result \<times> ('s1, 's2, 'v) MultiTierStore" where
  "callL1set l1 st key v options now =
     (case st_set l1 (l1Cache st) key v options now of
        (r, c) \<Rightarrow> (r, st\<lparr>l1Cache := c, calls := calls st @ [(L1, SetCall key v options)]\<rparr>))"

definition callL2set ::
  "('s2, 'v) KeyValueStore \<Rightarrow> ('s1, 's2, 'v) MultiTierStore \<Rightarrow> string \<Rightarrow> 'v \<Rightarrow> SetOptions \<Rightarrow> int
     \<Rightarrow> unit result \<times> ('s1, 's2, 'v) MultiTierStore" where
  "callL2set l2 st key v options now =
     (case st_set l2 (l2Cache st) key v options now of
        (r, c) \<Rightarrow> (r, st\<lparr>l2Cache := c, calls := calls st @ [(L2, SetCall key v options)]\<rparr>))"


text \<open>A hit: \<open>result.ok && result.value !== undefined\<close>.\<close>

fun isHit :: "'v option result \<Rightarrow> bool" where
  "isHit (Ok (Some v)) = True"
| "isHit (Ok None) = False"
| "isHit (Err e) = False"

text \<open>\<open>get\<close>: read-through.\<close>

definition mts_get ::
  "('s1, 'v) KeyValueStore \<Rightarrow> ('s2, 'v) KeyValueStore \<Rightarrow> MultiTierConfig
     \<Rightarrow> ('s1, 's2, 'v) MultiTierStore \<Rightarrow> string \<Rightarrow> 'v GetOptions \<Rightarrow> int
     \<Rightarrow> 'v option result \<times> ('s1, 's2, 'v) MultiTierStore" where
  "mts_get l1 l2 config st key options now =
     (case callL1get l1 st key options now of
        (Ok (Some v), st1) \<Rightarrow> (Ok (Some v), st1)
      | (l1Result, st1) \<Rightarrow>
          (case callL2get l2 st1 key options now of
             (Err e, st2) \<Rightarrow> (Err e, st2)
           | (Ok (Some v), st2) \<Rightarrow>
               if populateL1OnL2Hit config
               then (case callL1set l1 st2 key v
                            \<lparr>ttlMs = Some (l1TtlMs config), overwrite = Some True\<rparr> now of
                       (l1SetResult, st3) \<Rightarrow> (Ok (Some v), st3))
               else (Ok (Some v), st2)
           | (Ok None, st2) \<Rightarrow> (Ok (defaultValue options), st2)))"

text \<open>\<open>queueWriteBehind\<close>: \<open>writeBehindQueue.set(key, {value, options, timestamp})\<close>.\<close>

definition queueWriteBehind ::
  "('s1, 's2, 'v) MultiTierStore \<Rightarrow> string \<Rightarrow> 'v \<Rightarrow> SetOptions \<Rightarrow> int
     \<Rightarrow> ('s1, 's2, 'v) MultiTierStore" where
  "queueWriteBehind st key v options now =
     st\<lparr>writeBehindQueue :=
          AList.update key \<lparr>q_value = v, q_options = options, q_timestamp = now\<rparr>
            (writeBehindQueue st)\<rparr>"

text \<open>\<open>set\<close>: the fast tier first, then the durable tier by policy.\<close>

definition mts_set ::
  "('s1, 'v) KeyValueStore \<Rightarrow> ('s2, 'v) KeyValueStore \<Rightarrow> MultiTierConfig
     \<Rightarrow> ('s1, 's2, 'v) MultiTierStore \<Rightarrow> string \<Rightarrow> 'v \<Rightarrow> SetOptions \<Rightarrow> int
     \<Rightarrow> unit result \<times> ('s1, 's2, 'v) MultiTierStore" where
  "mts_set l1 l2 config st key v options now =
     (case callL1set l1 st key v
             (options\<lparr>ttlMs := Some (orElse (ttlMs options) (l1TtlMs config))\<rparr>) now of
        (Err e, st1) \<Rightarrow> (Err e, st1)
      | (Ok _, st1) \<Rightarrow>
          if writeThrough config
          then (case callL2set l2 st1 key v
                       (options\<lparr>ttlMs := Some (orElse (ttlMs options) (l2TtlMs config))\<rparr>) now of
                  (l2SetResult, st2) \<Rightarrow> (Ok (), st2))
          else if writeBehind config
          then (Ok (), queueWriteBehind st1 key v
                         (options\<lparr>ttlMs := Some (orElse (ttlMs options) (l2TtlMs config))\<rparr>) now)
          else (Ok (), st1))"

text \<open>
  \<open>delete\<close>: both tiers, then the pending write-behind entry.
\<close>

definition mts_delete ::
  "('s1, 'v) KeyValueStore \<Rightarrow> ('s2, 'v) KeyValueStore
     \<Rightarrow> ('s1, 's2, 'v) MultiTierStore \<Rightarrow> string \<Rightarrow> int
     \<Rightarrow> bool result \<times> ('s1, 's2, 'v) MultiTierStore" where
  "mts_delete l1 l2 st key now =
     (case st_delete l1 (l1Cache st) key now of
        (l1Result, c1) \<Rightarrow>
          (case st_delete l2 (l2Cache st) key now of
             (l2Result, c2) \<Rightarrow>
               (Ok (l1Result = Ok True \<or> l2Result = Ok True),
                st\<lparr>l1Cache := c1, l2Cache := c2,
                   writeBehindQueue := AList.delete key (writeBehindQueue st),
                   calls := calls st @ [(L1, DeleteCall key), (L2, DeleteCall key)]\<rparr>)))"



section \<open>Fetch Orchestration (use-cases/cache-item.ts)\<close>

record 'v CacheItemOptions =
  ci_ttlMs :: "int option"
  ci_refreshTtl :: "bool option"
  ci_defaultValue :: "'v option"
  ci_storeOnError :: "bool option"
  ci_maxRetries :: "int option"
  ci_retryDelayMs :: "int option"

record 'v MergedOptions =
  m_ttlMs :: int
  m_refreshTtl :: bool
  m_defaultValue :: "'v option"
  m_storeOnError :: bool
  m_maxRetries :: int
  m_retryDelayMs :: int

text \<open>\<open>mergedOptions\<close>; \<open>defaultTtlMs\<close> is \<open>config.get('defaultTtlMs')\<close>.\<close>

definition mergeOptions :: "int option \<Rightarrow> 'v CacheItemOptions \<Rightarrow> 'v MergedOptions" where
  "mergeOptions defaultTtlMs options =
     \<lparr>m_ttlMs = orElse (ci_ttlMs options) (orElse defaultTtlMs (5 * 60 * 1000)),
      m_refreshTtl = orElse (ci_refreshTtl options) False,
      m_defaultValue = ci_defaultValue options,
      m_storeOnError = orElse (ci_storeOnError options) False,
      m_maxRetries = orElse (ci_maxRetries options) 2,
      m_retryDelayMs = orElse (ci_retryDelayMs options) 1000\<rparr>"

record CacheMetadata =
  operationTimeMs :: int
  cacheHit :: bool
  retryAttempted :: bool
  retryCount :: int

record 'v CacheResult =
  cr_value :: 'v
  fromCache :: bool
  cr_metadata :: CacheMetadata

text \<open>
  The fetcher is a function of its own state: an invocation returns \<open>Inr value\<close>, or
  \<open>Inl message\<close> where it throws (what \<open>safeAsync\<close> turns into a failure), and the
  next state. What \<open>cacheItem\<close> does to the outside is recorded as events, oldest first:
  the store calls, each fetcher invocation with its outcome, and each
  \<open>setTimeout(resolve, retryDelayMs)\<close> it awaits.
\<close>

datatype 'v cacheEvent =
    StoreGet string "'v GetOptions"
  | FetchOk 'v
  | FetchErr string
  | Wait int
  | StoreSet string 'v SetOptions

record ('f, 'v) RetryState =
  rs_retryCount :: int
  rs_retryAttempted :: bool
  rs_fetchResult :: "(string + 'v) option"
  rs_fetcher :: 'f
  rs_events :: "'v cacheEvent list"

function retryLoop ::
  "('f \<Rightarrow> (string + 'v) \<times> 'f) \<Rightarrow> int \<Rightarrow> int \<Rightarrow> ('f, 'v) RetryState \<Rightarrow> ('f, 'v) RetryState" where
  "retryLoop fetcher maxRetries retryDelay r =
     (if rs_retryCount r \<le> maxRetries
      then (case fetcher (rs_fetcher r) of
              (Inr v, f') \<Rightarrow>
                r\<lparr>rs_fetchResult := Some (Inr v), rs_fetcher := f',
                  rs_events := rs_events r @ [FetchOk v]\<rparr>
            | (Inl e, f') \<Rightarrow>
                retryLoop fetcher maxRetries retryDelay
                  (r\<lparr>rs_retryCount := rs_retryCount r + 1,
                     rs_retryAttempted := True,
                     rs_fetchResult := Some (Inl e),
                     rs_fetcher := f',
                     rs_events := rs_events r @ [FetchErr e] @
                       (if rs_retryCount r + 1 \<le> maxRetries then [Wait retryDelay] else [])\<rparr>))
      else r)"
  by pat_completeness auto
termination
  by (relation "measure (\<lambda>(fetcher, maxRetries, retryDelay, r). nat (maxRetries + 1 - rs_retryCount r))")
     auto

declare retryLoop.simps [simp del]

record ('s, 'f, 'v) CacheRun =
  outcome :: "'v CacheResult result"
  storeAfter :: 's
  fetcherAfter :: 'f
  events :: "'v cacheEvent list"

text \<open>\<open>fetchResult?.error || 'Unknown error'\<close>: the empty message is the falsy one.\<close>

fun lastErrorOf :: "(string + 'v) option \<Rightarrow> string" where
  "lastErrorOf (Some (Inl e)) = (if e = [] then ''Unknown error'' else e)"
| "lastErrorOf _ = ''Unknown error''"

text \<open>
  \<open>cacheItem\<close>. The clock reads \<open>startTime\<close> at entry, where the store is read, and
  \<open>endTime\<close> once the fetch loop is over, where the store is written and
  \<open>operationTimeMs\<close> is taken.
\<close>

definition cacheItem ::
  "('s, 'v) KeyValueStore \<Rightarrow> ('f \<Rightarrow> (string + 'v) \<times> 'f) \<Rightarrow> int option
     \<Rightarrow> 's \<Rightarrow> 'f \<Rightarrow> string \<Rightarrow> 'v CacheItemOptions \<Rightarrow> int \<Rightarrow> int
     \<Rightarrow> ('s, 'f, 'v) CacheRun" where
  "cacheItem store fetcher defaultTtlMs s f key options startTime endTime =
     (let mergedOptions = mergeOptions defaultTtlMs options;
          getOptions = \<lparr>refreshTtl = Some (m_refreshTtl mergedOptions), defaultValue = None\<rparr>;
          operationTime = endTime - startTime
      in case st_get store s key getOptions startTime of
           (Ok (Some v), s1) \<Rightarrow>
             \<lparr>outcome = Ok \<lparr>cr_value = v, fromCache = True,
                            cr_metadata = \<lparr>operationTimeMs = operationTime, cacheHit = True,
                                           retryAttempted = False, retryCount = 0\<rparr>\<rparr>,
              storeAfter = s1, fetcherAfter = f, events = [StoreGet key getOptions]\<rparr>
         | (cacheResult, s1) \<Rightarrow>
             (let r = retryLoop fetcher (m_maxRetries mergedOptions) (m_retryDelayMs mergedOptions)
                        \<lparr>rs_retryCount = 0, rs_retryAttempted = False, rs_fetchResult = None,
                         rs_fetcher = f, rs_events = [StoreGet key getOptions]\<rparr>;
                  meta = \<lparr>operationTimeMs = operationTime, cacheHit = False,
                          retryAttempted = rs_retryAttempted r, retryCount = rs_retryCount r\<rparr>
              in case rs_fetchResult r of
                   Some (Inr v) \<Rightarrow>
                     (let setOptions = \<lparr>ttlMs = Some (m_ttlMs mergedOptions), overwrite = Some True\<rparr>
                      in case st_set store s1 key v setOptions endTime of
                           (Ok _, s2) \<Rightarrow>
                             \<lparr>outcome = Ok \<lparr>cr_value = v, fromCache = False, cr_metadata = meta\<rparr>,
                              storeAfter = s2, fetcherAfter = rs_fetcher r,
                              events = rs_events r @ [StoreSet key v setOptions]\<rparr>
                         | (Err storeError, s2) \<Rightarrow>
                             \<lparr>outcome =
                                (if \<not> m_storeOnError mergedOptions
                                 then Ok \<lparr>cr_value = v, fromCache = False, cr_metadata = meta\<rparr>
                                 else Err (STORE_FAILED key storeError)),
                              storeAfter = s2, fetcherAfter = rs_fetcher r,
                              events = rs_events r @ [StoreSet key v setOptions]\<rparr>)
                 | notOk \<Rightarrow>
                     \<lparr>outcome =
                        (case m_defaultValue mergedOptions of
                           Some d \<Rightarrow> Ok \<lparr>cr_value = d, fromCache = False, cr_metadata = meta\<rparr>
                         | None \<Rightarrow> Err (FETCH_FAILED key (rs_retryCount r) (lastErrorOf notOk))),
                      storeAfter = s1, fetcherAfter = rs_fetcher r, events = rs_events r\<rparr>))"

text \<open>
  What the events of a run are read for: the fetcher invocations among them, the
  successful ones, the store writes, the messages of the failed invocations in order,
  and the sequence a retry loop leaves behind when its invocations fail with the
  messages \<open>errs\<close> and then succeed with \<open>fin\<close> or stop: a wait of \<open>d\<close> after each
  failure that another invocation follows.
\<close>

fun isFetch :: "'v cacheEvent \<Rightarrow> bool" where
  "isFetch (FetchOk v) = True"
| "isFetch (FetchErr e) = True"
| "isFetch _ = False"

fun isFetchOk :: "'v cacheEvent \<Rightarrow> bool" where
  "isFetchOk (FetchOk v) = True"
| "isFetchOk _ = False"

fun isStoreSet :: "'v cacheEvent \<Rightarrow> bool" where
  "isStoreSet (StoreSet k v options) = True"
| "isStoreSet _ = False"

fun errorsOf :: "'v cacheEvent list \<Rightarrow> string list" where
  "errorsOf [] = []"
| "errorsOf (FetchErr e # evs) = e # errorsOf evs"
| "errorsOf (ev # evs) = errorsOf evs"

fun retryTrail :: "int \<Rightarrow> string list \<Rightarrow> 'v option \<Rightarrow> 'v cacheEvent list" where
  "retryTrail d [] None = []"
| "retryTrail d [] (Some v) = [FetchOk v]"
| "retryTrail d [e] None = [FetchErr e]"
| "retryTrail d (e # es) fin = FetchErr e # Wait d # retryTrail d es fin"

text \<open>
  What the retry loop does, from any state it is entered in: it appends the trail of
  some failures \<open>errs\<close> and an optional success \<open>fin\<close>, counts the failures, and keeps
  the last outcome.
\<close>

definition loopRan ::
  "int \<Rightarrow> int \<Rightarrow> ('f, 'v) RetryState \<Rightarrow> ('f, 'v) RetryState \<Rightarrow> string list \<Rightarrow> 'v option \<Rightarrow> bool" where
  "loopRan m d r r' errs fin =
     (rs_events r' = rs_events r @ retryTrail d errs fin
      \<and> rs_retryCount r' = rs_retryCount r + int (length errs)
      \<and> rs_retryAttempted r' = (rs_retryAttempted r \<or> errs \<noteq> [])
      \<and> rs_fetchResult r' =
          (case fin of
             Some v \<Rightarrow> Some (Inr v)
           | None \<Rightarrow> if errs = [] then rs_fetchResult r else Some (Inl (last errs)))
      \<and> int (length errs) + (if fin = None then 0 else 1) \<le> max 0 (m + 1 - rs_retryCount r)
      \<and> (if rs_retryCount r \<le> m then errs \<noteq> [] \<or> fin \<noteq> None else errs = [] \<and> fin = None)
      \<and> (if fin = None \<and> rs_retryCount r \<le> m then rs_retryCount r' = m + 1 else True))"

section \<open>Concrete inputs\<close>

text \<open>
  For a string without characters that JSON escapes, \<open>JSON.stringify\<close> is the string
  between two double quotes, so \<open>calculateSize\<close> is twice its length plus four.
\<close>

definition plainStringSize :: "string \<Rightarrow> int option" where
  "plainStringSize v = Some ((int (length v) + 2) * 2)"

definition ttlOnly :: "int \<Rightarrow> SetOptions" where
  "ttlOnly t = \<lparr>ttlMs = Some t, overwrite = None\<rparr>"

definition refreshing :: "string GetOptions" where
  "refreshing = \<lparr>refreshTtl = Some True, defaultValue = None\<rparr>"

text \<open>A fresh engine after \<open>set("k", "v", {ttlMs: 100})\<close> at time 0.\<close>

definition storedAt0 :: "string EnhancedMemoryStore" where
  "storedAt0 = snd (ems_set plainStringSize (newStore None) ''k'' ''v'' (ttlOnly 100) 0)"

definition expiryOf :: "'v EnhancedMemoryStore \<Rightarrow> string \<Rightarrow> int option option" where
  "expiryOf s key = map_option (\<lambda>e. expiresAt (metadata e)) (map_of (smap s) key)"









text \<open>Two engines composed with the constructor's default configuration.\<close>

definition stringEngine :: "(string EnhancedMemoryStore, string) KeyValueStore" where
  "stringEngine = enhancedMemoryStore plainStringSize"

definition defaultConfig :: MultiTierConfig where
  "defaultConfig = mergeConfig \<lparr>in_l1TtlMs = None, in_l2TtlMs = None,
     in_populateL1OnL2Hit = None, in_writeThrough = None, in_writeBehind = None,
     in_writeBehindDelayMs = None\<rparr>"


definition tiers ::
  "string EnhancedMemoryStore \<Rightarrow> string EnhancedMemoryStore
     \<Rightarrow> (string EnhancedMemoryStore, string EnhancedMemoryStore, string) MultiTierStore" where
  "tiers a b = \<lparr>l1Cache = a, l2Cache = b, writeBehindQueue = [], calls = []\<rparr>"




text \<open>
  The fetcher of the retry test: it counts its invocations, throws on the first two
  and returns 42 from the third on. And one that always throws.
\<close>

definition failTwice :: "int \<Rightarrow> (string + int) \<times> int" where
  "failTwice attempts =
     (if attempts + 1 < 3 then Inl ''Simulated failure'' else Inr 42, attempts + 1)"

definition alwaysFails :: "int \<Rightarrow> (string + string) \<times> int" where
  "alwaysFails attempts = (Inl ''Always fails'', attempts + 1)"

text \<open>An engine of numbers; the JSON text of 42 has two characters.\<close>

definition numberEngine :: "(int EnhancedMemoryStore, int) KeyValueStore" where
  "numberEngine = enhancedMemoryStore (\<lambda>v. Some 4)"

definition retryOptions :: "int \<Rightarrow> 'v option \<Rightarrow> 'v CacheItemOptions" where
  "retryOptions n d =
     \<lparr>ci_ttlMs = None, ci_refreshTtl = None, ci_defaultValue = d, ci_storeOnError = None,
      ci_maxRetries = Some n, ci_retryDelayMs = Some 10\<rparr>"

section \<open>The Cache Engine's claims\<close>

lemma storedAt0_eq:
  "storedAt0 =
     \<lparr>smap = [(''k'', \<lparr>val = ''v'',
                        metadata = \<lparr>createdAt = 0, lastAccessedAt = 0, expiresAt = Some 100,
                                    sizeBytes = 6, accessCount = 1\<rparr>\<rparr>)],
      lru = [''k''],
      stats = \<lparr>keyCount = 1, memoryUsageBytes = 6, hits = 0, misses = 0,
               evictions = 0, expirations = 0\<rparr>,
      maxMemoryBytes = None\<rparr>"
  by (simp add: storedAt0_def ems_set_def newStore_def emptyStats_def plainStringSize_def
      ttlOnly_def existingSize_def moveToHead_def Let_def)

text \<open>
  C6. The claim: after every operation \<open>keyCount\<close> is the number of entries in the map and
  \<open>memoryUsageBytes\<close> the sum of their sizes, and a lazy expiration by \<open>get\<close>, \<open>has\<close>,
  \<open>getTtl\<close> or \<open>sizeof\<close> lowers both as \<open>delete\<close>, \<open>cleanup\<close> and \<open>evict\<close> do.
  The code at \<open>set("k", "v", {ttlMs: 100})\<close> at time 0 followed by an access at time 100:
  each of the four lazy paths empties the map and leaves \<open>keyCount = 1\<close> and
  \<open>memoryUsageBytes = 6\<close>, where \<open>cleanup\<close>, \<open>delete\<close> and \<open>evict\<close> on the same state
  bring both to 0.
\<close>

theorem lazy_expiration_keeps_keyCount:
  "smap (snd (ems_get storedAt0 ''k'' noGetOptions 100)) = []
   \<and> keyCount (stats (snd (ems_get storedAt0 ''k'' noGetOptions 100))) = 1
   \<and> memoryUsageBytes (stats (snd (ems_get storedAt0 ''k'' noGetOptions 100))) = 6
   \<and> smap (snd (ems_has storedAt0 ''k'' 100)) = []
   \<and> keyCount (stats (snd (ems_has storedAt0 ''k'' 100))) = 1
   \<and> memoryUsageBytes (stats (snd (ems_has storedAt0 ''k'' 100))) = 6
   \<and> smap (snd (ems_getTtl storedAt0 ''k'' 100)) = []
   \<and> keyCount (stats (snd (ems_getTtl storedAt0 ''k'' 100))) = 1
   \<and> smap (snd (ems_sizeof storedAt0 ''k'' 100)) = []
   \<and> keyCount (stats (snd (ems_sizeof storedAt0 ''k'' 100))) = 1
   \<and> smap (snd (ems_cleanup storedAt0 100)) = []
   \<and> keyCount (stats (snd (ems_cleanup storedAt0 100))) = 0
   \<and> memoryUsageBytes (stats (snd (ems_cleanup storedAt0 100))) = 0
   \<and> keyCount (stats (snd (ems_delete storedAt0 ''k''))) = 0
   \<and> memoryUsageBytes (stats (snd (ems_delete storedAt0 ''k''))) = 0
   \<and> keyCount (stats (snd (ems_evict storedAt0 1))) = 0
   \<and> memoryUsageBytes (stats (snd (ems_evict storedAt0 1))) = 0"
  by (simp add: storedAt0_eq ems_get_def ems_has_def ems_getTtl_def ems_sizeof_def
      ems_cleanup_def ems_delete_def ems_evict_def cleanupStep_def removeAccounted_def
      expireLazily_def countMiss_def isExpired_def removeFromLRU_def noGetOptions_def
      AList.delete_eq)

text \<open>
  C8. The claim: every refreshing \<open>get\<close> of an entry stored with TTL \<open>T\<close> sets
  \<open>expiresAt\<close> to \<open>now + T\<close>, also the later ones of a sequence. The code after
  \<open>set("k", "v", {ttlMs: 100})\<close> at time 0: the refreshing \<open>get\<close> at time 50 sets
  \<open>expiresAt = 150\<close>, and the next one at time 60 sets \<open>210\<close>, not \<open>160\<close>, because
  \<open>originalTtl\<close> is \<open>expiresAt - createdAt\<close> and \<open>createdAt\<close> is still 0.
\<close>

theorem second_refresh_adds_elapsed_time:
  "expiryOf (snd (ems_get storedAt0 ''k'' refreshing 50)) ''k'' = Some (Some 150)
   \<and> expiryOf (snd (ems_get (snd (ems_get storedAt0 ''k'' refreshing 50)) ''k'' refreshing 60))
        ''k'' = Some (Some 210)"
  by (simp add: storedAt0_eq ems_get_def expiryOf_def refreshing_def refreshedMetadata_def
      isExpired_def moveToHead_def Let_def)

text \<open>
  C9. The claim: \<open>set\<close> with \<open>overwrite = false\<close> fails exactly when the key is live, and
  succeeds on an entry that has expired but is still in the map. The code after
  \<open>set("k", "v", {ttlMs: 100})\<close> at time 0: at time 100 the entry is expired and \<open>has\<close>
  answers \<open>false\<close>, yet \<open>set("k", "w", {overwrite: false})\<close> fails and leaves the store
  as it was.
\<close>

theorem set_without_overwrite_rejects_expired_entry:
  "map_option (\<lambda>e. isExpired e 100) (map_of (smap storedAt0) ''k'') = Some True
   \<and> fst (ems_has storedAt0 ''k'' 100) = Ok False
   \<and> ems_set plainStringSize storedAt0 ''k'' ''w'' \<lparr>ttlMs = None, overwrite = Some False\<rparr> 100
       = (Err (StoreError OPERATION_FAILED ''k''), storedAt0)"
  by (simp add: storedAt0_eq ems_set_def ems_has_def isExpired_def Let_def)








section \<open>The Tiered Orchestrator's claims\<close>

lemma callsTo_append: "callsTo t (xs @ ys) = callsTo t xs @ callsTo t ys"
  by (simp add: callsTo_def)

lemma callsTo_single: "callsTo t [(t', c)] = (if t' = t then [c] else [])"
  by (simp add: callsTo_def)

lemma ems_set_stores:
  assumes "calculateSize v = Some sz" and "overwrite options \<noteq> Some False"
  shows "fst (ems_set calculateSize s key v options now) = Ok ()"
    and "map_of (smap (snd (ems_set calculateSize s key v options now))) key
           = Some \<lparr>val = v,
                   metadata = \<lparr>createdAt = now, lastAccessedAt = now,
                               expiresAt = (if truthy (ttlMs options)
                                            then Some (now + numberOr0 (ttlMs options))
                                            else None),
                               sizeBytes = sz, accessCount = 1\<rparr>\<rparr>"
  using assms by (simp_all add: ems_set_def Let_def update_conv')

lemma ems_get_live:
  assumes "map_of (smap s) key = Some e" and "\<not> isExpired e now"
  shows "fst (ems_get s key options now) = Ok (Some (val e))"
  using assms by (simp add: ems_get_def Let_def)

lemma ems_get_default:
  assumes "defaultValue options = Some d"
  shows "isHit (fst (ems_get s key options now))"
  using assms by (simp add: ems_get_def Let_def split: option.split)

lemma mts_get_fast_path:
  assumes "isHit (fst (st_get l1 (l1Cache st) key options now))"
  shows "mts_get l1 l2 config st key options now
           = (fst (st_get l1 (l1Cache st) key options now),
              st\<lparr>l1Cache := snd (st_get l1 (l1Cache st) key options now),
                 calls := calls st @ [(L1, GetCall key options)]\<rparr>)"
proof -
  obtain r c where rc: "st_get l1 (l1Cache st) key options now = (r, c)"
    by (cases "st_get l1 (l1Cache st) key options now")
  with assms obtain v where "r = Ok (Some v)"
    by (cases r rule: isHit.cases) auto
  with rc show ?thesis by (simp add: mts_get_def callL1get_def)
qed

lemma mts_get_slow_path:
  assumes "\<not> isHit (fst (st_get l1 (l1Cache st) key options now))"
  shows "mts_get l1 l2 config st key options now =
           (case callL2get l2 (snd (callL1get l1 st key options now)) key options now of
             (Err e, st2) \<Rightarrow> (Err e, st2)
           | (Ok (Some v), st2) \<Rightarrow>
               if populateL1OnL2Hit config
               then (case callL1set l1 st2 key v
                            \<lparr>ttlMs = Some (l1TtlMs config), overwrite = Some True\<rparr> now of
                       (l1SetResult, st3) \<Rightarrow> (Ok (Some v), st3))
               else (Ok (Some v), st2)
           | (Ok None, st2) \<Rightarrow> (Ok (defaultValue options), st2))"
proof -
  obtain r c where rc: "st_get l1 (l1Cache st) key options now = (r, c)"
    by (cases "st_get l1 (l1Cache st) key options now")
  with assms have "\<not> isHit r" by simp
  then show ?thesis
    by (cases r rule: isHit.cases) (simp_all add: mts_get_def callL1get_def rc)
qed

text \<open>
  C1. A \<open>get\<close> on the tiered store asks the fast tier first. On a fast-tier hit it returns
  that value and the durable tier receives no call. Otherwise it asks the durable tier;
  on a durable hit with \<open>populateL1OnL2Hit\<close> it writes the value to the fast tier with
  \<open>ttlMs = l1TtlMs\<close> and returns it; with the Cache Engine as fast tier a later \<open>get\<close> of
  the key, before that TTL has run out, is answered by the fast tier with no durable-tier
  call. When both tiers miss, a \<open>get\<close> without default value returns undefined.
\<close>

theorem tiered_get_reads_through:
  fixes l1 :: "('s1, 'v) KeyValueStore" and l2 :: "('s2, 'v) KeyValueStore"
    and st :: "('s1, 's2, 'v) MultiTierStore"
    and est :: "('v EnhancedMemoryStore, 's2, 'v) MultiTierStore"
  shows
  "(fst (st_get l1 (l1Cache st) key options now) = Ok (Some v) \<longrightarrow>
      fst (mts_get l1 l2 config st key options now) = Ok (Some v)
      \<and> calls (snd (mts_get l1 l2 config st key options now))
          = calls st @ [(L1, GetCall key options)]
      \<and> callsTo L2 (calls (snd (mts_get l1 l2 config st key options now)))
          = callsTo L2 (calls st)
      \<and> l2Cache (snd (mts_get l1 l2 config st key options now)) = l2Cache st)
   \<and> (\<not> isHit (fst (st_get l1 (l1Cache st) key options now)) \<longrightarrow>
      take (length (calls st) + 2) (calls (snd (mts_get l1 l2 config st key options now)))
        = calls st @ [(L1, GetCall key options), (L2, GetCall key options)])
   \<and> (\<not> isHit (fst (st_get l1 (l1Cache st) key options now))
       \<and> fst (st_get l2 (l2Cache st) key options now) = Ok (Some w)
       \<and> populateL1OnL2Hit config \<longrightarrow>
      fst (mts_get l1 l2 config st key options now) = Ok (Some w)
      \<and> calls (snd (mts_get l1 l2 config st key options now))
          = calls st @ [(L1, GetCall key options), (L2, GetCall key options),
                        (L1, SetCall key w \<lparr>ttlMs = Some (l1TtlMs config), overwrite = Some True\<rparr>)]
      \<and> l1Cache (snd (mts_get l1 l2 config st key options now))
          = snd (st_set l1 (snd (st_get l1 (l1Cache st) key options now)) key w
                   \<lparr>ttlMs = Some (l1TtlMs config), overwrite = Some True\<rparr> now))
   \<and> (\<not> isHit (fst (st_get l1 (l1Cache st) key options now))
       \<and> fst (st_get l2 (l2Cache st) key options now) = Ok None
       \<and> defaultValue options = None \<longrightarrow>
      fst (mts_get l1 l2 config st key options now) = Ok None)
   \<and> (\<not> isHit (fst (ems_get (l1Cache est) key options now))
       \<and> fst (st_get l2 (l2Cache est) key options now) = Ok (Some w)
       \<and> populateL1OnL2Hit config
       \<and> calculateSize w = Some sz
       \<and> (l1TtlMs config = 0 \<or> later < now + l1TtlMs config) \<longrightarrow>
      fst (mts_get (enhancedMemoryStore calculateSize) l2 config
             (snd (mts_get (enhancedMemoryStore calculateSize) l2 config est key options now))
             key options' later) = Ok (Some w)
      \<and> calls (snd (mts_get (enhancedMemoryStore calculateSize) l2 config
             (snd (mts_get (enhancedMemoryStore calculateSize) l2 config est key options now))
             key options' later))
          = calls (snd (mts_get (enhancedMemoryStore calculateSize) l2 config est key options now))
            @ [(L1, GetCall key options')])"
proof -
  let ?g = "mts_get l1 l2 config st key options now"
  let ?r1 = "st_get l1 (l1Cache st) key options now"
  let ?r2 = "st_get l2 (l2Cache st) key options now"
  let ?p = "\<lparr>ttlMs = Some (l1TtlMs config), overwrite = Some True\<rparr>"
  have slow: "\<not> isHit (fst ?r1) \<Longrightarrow>
      ?g = (case callL2get l2 (snd (callL1get l1 st key options now)) key options now of
             (Err e, st2) \<Rightarrow> (Err e, st2)
           | (Ok (Some v), st2) \<Rightarrow>
               if populateL1OnL2Hit config
               then (case callL1set l1 st2 key v ?p now of
                       (l1SetResult, st3) \<Rightarrow> (Ok (Some v), st3))
               else (Ok (Some v), st2)
           | (Ok None, st2) \<Rightarrow> (Ok (defaultValue options), st2))"
    by (rule mts_get_slow_path)
  have a: "fst ?r1 = Ok (Some v) \<longrightarrow>
      fst ?g = Ok (Some v) \<and> calls (snd ?g) = calls st @ [(L1, GetCall key options)]
      \<and> callsTo L2 (calls (snd ?g)) = callsTo L2 (calls st) \<and> l2Cache (snd ?g) = l2Cache st"
  proof
    assume h: "fst ?r1 = Ok (Some v)"
    then have "isHit (fst ?r1)" by simp
    from mts_get_fast_path[OF this, of l2 config] h show
      "fst ?g = Ok (Some v) \<and> calls (snd ?g) = calls st @ [(L1, GetCall key options)]
       \<and> callsTo L2 (calls (snd ?g)) = callsTo L2 (calls st) \<and> l2Cache (snd ?g) = l2Cache st"
      by (simp add: callsTo_append callsTo_single)
  qed
  have b: "\<not> isHit (fst ?r1) \<longrightarrow>
      take (length (calls st) + 2) (calls (snd ?g))
        = calls st @ [(L1, GetCall key options), (L2, GetCall key options)]"
  proof
    assume h: "\<not> isHit (fst ?r1)"
    obtain r c where rc: "?r2 = (r, c)" by (cases ?r2)
    show "take (length (calls st) + 2) (calls (snd ?g))
            = calls st @ [(L1, GetCall key options), (L2, GetCall key options)]"
      unfolding slow[OF h]
      by (cases r rule: isHit.cases)
         (simp_all add: callL1get_def callL2get_def callL1set_def rc split: prod.split)
  qed
  have c: "\<not> isHit (fst ?r1) \<and> fst ?r2 = Ok (Some w) \<and> populateL1OnL2Hit config \<longrightarrow>
      fst ?g = Ok (Some w)
      \<and> calls (snd ?g) = calls st @ [(L1, GetCall key options), (L2, GetCall key options),
                                     (L1, SetCall key w ?p)]
      \<and> l1Cache (snd ?g) = snd (st_set l1 (snd ?r1) key w ?p now)"
  proof
    assume h: "\<not> isHit (fst ?r1) \<and> fst ?r2 = Ok (Some w) \<and> populateL1OnL2Hit config"
    then have h1: "\<not> isHit (fst ?r1)" by simp
    obtain c where rc: "?r2 = (Ok (Some w), c)" using h by (cases ?r2) simp
    show "fst ?g = Ok (Some w)
      \<and> calls (snd ?g) = calls st @ [(L1, GetCall key options), (L2, GetCall key options),
                                     (L1, SetCall key w ?p)]
      \<and> l1Cache (snd ?g) = snd (st_set l1 (snd ?r1) key w ?p now)"
      unfolding slow[OF h1] using h
      by (simp add: callL1get_def callL2get_def callL1set_def rc split: prod.split)
  qed
  have d: "\<not> isHit (fst ?r1) \<and> fst ?r2 = Ok None \<and> defaultValue options = None \<longrightarrow>
      fst ?g = Ok None"
  proof
    assume h: "\<not> isHit (fst ?r1) \<and> fst ?r2 = Ok None \<and> defaultValue options = None"
    then have h1: "\<not> isHit (fst ?r1)" by simp
    obtain c where rc: "?r2 = (Ok None, c)" using h by (cases ?r2) simp
    show "fst ?g = Ok None"
      unfolding slow[OF h1] using h
      by (simp add: callL1get_def callL2get_def rc split: prod.split)
  qed
  let ?E = "enhancedMemoryStore calculateSize"
  let ?ge = "mts_get ?E l2 config est key options now"
  let ?g2 = "mts_get ?E l2 config (snd ?ge) key options' later"
  have e: "\<not> isHit (fst (ems_get (l1Cache est) key options now))
       \<and> fst (st_get l2 (l2Cache est) key options now) = Ok (Some w)
       \<and> populateL1OnL2Hit config \<and> calculateSize w = Some sz
       \<and> (l1TtlMs config = 0 \<or> later < now + l1TtlMs config) \<longrightarrow>
      fst ?g2 = Ok (Some w) \<and> calls (snd ?g2) = calls (snd ?ge) @ [(L1, GetCall key options')]"
  proof
    assume h: "\<not> isHit (fst (ems_get (l1Cache est) key options now))
       \<and> fst (st_get l2 (l2Cache est) key options now) = Ok (Some w)
       \<and> populateL1OnL2Hit config \<and> calculateSize w = Some sz
       \<and> (l1TtlMs config = 0 \<or> later < now + l1TtlMs config)"
    have get_E: "st_get ?E = ems_get" and set_E: "st_set ?E = ems_set calculateSize"
      by (simp_all add: enhancedMemoryStore_def)
    from h have h1: "\<not> isHit (fst (st_get ?E (l1Cache est) key options now))"
      by (simp add: get_E)
    obtain c where rc: "st_get l2 (l2Cache est) key options now = (Ok (Some w), c)"
      using h by (cases "st_get l2 (l2Cache est) key options now") simp
    let ?s1 = "snd (ems_get (l1Cache est) key options now)"
    have l1: "l1Cache (snd ?ge) = snd (ems_set calculateSize ?s1 key w ?p now)"
      unfolding mts_get_slow_path[OF h1] using h
      by (simp add: callL1get_def callL2get_def callL1set_def rc get_E set_E split: prod.split)
    from h have sz: "calculateSize w = Some sz" by simp
    have ow: "overwrite ?p \<noteq> Some False" by simp
    let ?entry = "\<lparr>val = w,
                   metadata = \<lparr>createdAt = now, lastAccessedAt = now,
                               expiresAt = (if truthy (ttlMs ?p)
                                            then Some (now + numberOr0 (ttlMs ?p))
                                            else None),
                               sizeBytes = sz, accessCount = 1\<rparr>\<rparr>"
    have stored: "map_of (smap (l1Cache (snd ?ge))) key = Some ?entry"
      using ems_set_stores(2)[where calculateSize = calculateSize and v = w and sz = sz
          and options = "?p" and s = "?s1" and key = key and now = now] sz
      by (simp add: l1)
    have live: "\<not> isExpired ?entry later"
      using h by (auto simp: isExpired_def)
    have "fst (ems_get (l1Cache (snd ?ge)) key options' later) = Ok (Some (val ?entry))"
      by (rule ems_get_live[OF stored live])
    then have hit: "isHit (fst (st_get ?E (l1Cache (snd ?ge)) key options' later))"
      and val: "fst (st_get ?E (l1Cache (snd ?ge)) key options' later) = Ok (Some w)"
      by (simp_all add: get_E)
    show "fst ?g2 = Ok (Some w) \<and> calls (snd ?g2) = calls (snd ?ge) @ [(L1, GetCall key options')]"
      unfolding mts_get_fast_path[OF hit] using val by simp
  qed
  from a b c d e show ?thesis by (intro conjI)
qed

lemmas engine_eval =
  ems_get_def ems_set_def ems_has_def ems_delete_def ems_mset_def enhancedMemoryStore_def
  stringEngine_def plainStringSize_def newStore_def emptyStats_def existingSize_def
  moveToHead_def removeFromLRU_def isExpired_def expireLazily_def countMiss_def
  refreshedMetadata_def noGetOptions_def noSetOptions_def Let_def


theorem tiered_get_reads_through_witness:
  "fst (mts_get stringEngine stringEngine defaultConfig (tiers storedAt0 (newStore None))
          ''k'' noGetOptions 10) = Ok (Some ''v'')
   \<and> callsTo L2 (calls (snd (mts_get stringEngine stringEngine defaultConfig
          (tiers storedAt0 (newStore None)) ''k'' noGetOptions 10))) = []
   \<and> fst (mts_get stringEngine stringEngine defaultConfig (tiers (newStore None) (newStore None))
          ''k'' noGetOptions 10) = Ok None
   \<and> calls (snd (mts_get stringEngine stringEngine defaultConfig
          (tiers (newStore None) storedAt0) ''k'' noGetOptions 10))
       = [(L1, GetCall ''k'' noGetOptions), (L2, GetCall ''k'' noGetOptions),
          (L1, SetCall ''k'' ''v'' \<lparr>ttlMs = Some 60000, overwrite = Some True\<rparr>)]
   \<and> fst (mts_get stringEngine stringEngine defaultConfig
            (snd (mts_get stringEngine stringEngine defaultConfig
                    (tiers (newStore None) storedAt0) ''k'' noGetOptions 10))
            ''k'' noGetOptions 20) = Ok (Some ''v'')
   \<and> callsTo L2 (calls (snd (mts_get stringEngine stringEngine defaultConfig
            (snd (mts_get stringEngine stringEngine defaultConfig
                    (tiers (newStore None) storedAt0) ''k'' noGetOptions 10))
            ''k'' noGetOptions 20))) = [GetCall ''k'' noGetOptions]"
proof -
  let ?E = stringEngine
  let ?hit = "tiers storedAt0 (newStore None)"
  let ?miss = "tiers (newStore None) (newStore None) ::
     (string EnhancedMemoryStore, string EnhancedMemoryStore, string) MultiTierStore"
  let ?l2 = "tiers (newStore None) storedAt0"
  have E: "?E = enhancedMemoryStore plainStringSize" by (simp add: stringEngine_def)
  have cfg: "populateL1OnL2Hit defaultConfig" "l1TtlMs defaultConfig = 60000"
    by (simp_all add: defaultConfig_def mergeConfig_def)
  have h1: "fst (st_get ?E (l1Cache ?hit) ''k'' noGetOptions 10) = Ok (Some ''v'')"
    by (simp add: storedAt0_eq engine_eval tiers_def)
  have h2: "\<not> isHit (fst (st_get ?E (l1Cache ?miss) ''k'' noGetOptions 10))"
    "fst (st_get ?E (l2Cache ?miss) ''k'' noGetOptions 10) = Ok None"
    "defaultValue (noGetOptions :: string GetOptions) = None"
    by (simp_all add: engine_eval tiers_def)
  have h3: "\<not> isHit (fst (st_get ?E (l1Cache ?l2) ''k'' noGetOptions 10))"
    "\<not> isHit (fst (ems_get (l1Cache ?l2) ''k'' noGetOptions 10))"
    "fst (st_get ?E (l2Cache ?l2) ''k'' noGetOptions 10) = Ok (Some ''v'')"
    "plainStringSize ''v'' = Some 6"
    "l1TtlMs defaultConfig = 0 \<or> (20::int) < 10 + l1TtlMs defaultConfig"
    by (simp_all add: storedAt0_eq engine_eval tiers_def cfg)
  note t1 = tiered_get_reads_through [where ?l1.0 = ?E and ?l2.0 = ?E and st = ?hit
      and key = "''k''" and options = noGetOptions and now = 10 and v = "''v''"
      and config = defaultConfig]
  note t2 = tiered_get_reads_through [where ?l1.0 = ?E and ?l2.0 = ?E and st = ?miss
      and key = "''k''" and options = noGetOptions and now = 10 and config = defaultConfig]
  note t3 = tiered_get_reads_through [where ?l1.0 = ?E and ?l2.0 = ?E and st = ?l2
      and est = ?l2 and key = "''k''" and options = noGetOptions and now = 10
      and w = "''v''" and config = defaultConfig and calculateSize = plainStringSize
      and sz = 6 and later = 20 and options' = noGetOptions]
  from t1 h1 have a: "fst (mts_get ?E ?E defaultConfig ?hit ''k'' noGetOptions 10) = Ok (Some ''v'')"
    "callsTo L2 (calls (snd (mts_get ?E ?E defaultConfig ?hit ''k'' noGetOptions 10)))
       = callsTo L2 (calls ?hit)"
    by blast+
  from t2 h2 have b: "fst (mts_get ?E ?E defaultConfig ?miss ''k'' noGetOptions 10) = Ok None"
    by blast
  from t3 h3(1,3) cfg(1)
  have c: "calls (snd (mts_get ?E ?E defaultConfig ?l2 ''k'' noGetOptions 10))
       = calls ?l2 @ [(L1, GetCall ''k'' noGetOptions), (L2, GetCall ''k'' noGetOptions),
          (L1, SetCall ''k'' ''v'' \<lparr>ttlMs = Some (l1TtlMs defaultConfig), overwrite = Some True\<rparr>)]"
    by blast
  from t3 h3(2,3,4,5) cfg(1)
  have d: "fst (mts_get (enhancedMemoryStore plainStringSize) ?E defaultConfig
            (snd (mts_get (enhancedMemoryStore plainStringSize) ?E defaultConfig ?l2 ''k'' noGetOptions 10))
            ''k'' noGetOptions 20) = Ok (Some ''v'')"
    "calls (snd (mts_get (enhancedMemoryStore plainStringSize) ?E defaultConfig
            (snd (mts_get (enhancedMemoryStore plainStringSize) ?E defaultConfig ?l2 ''k'' noGetOptions 10))
            ''k'' noGetOptions 20))
     = calls (snd (mts_get (enhancedMemoryStore plainStringSize) ?E defaultConfig ?l2 ''k'' noGetOptions 10))
       @ [(L1, GetCall ''k'' noGetOptions)]"
    by blast+
  from a b c d show ?thesis
    by (simp add: E [symmetric] cfg callsTo_def tiers_def)
qed

text \<open>
  C5. A \<open>set\<close> on the tiered store first writes the fast tier with
  \<open>ttlMs = ttl ?? l1TtlMs\<close>. If that write fails the call fails with its error and no
  other call is made. Under \<open>writeThrough\<close> the durable tier is then written with
  \<open>ttlMs = ttl ?? l2TtlMs\<close>, and the call reports success whatever the durable tier
  answers, with the fast tier's write kept.
\<close>

theorem tiered_set_fast_tier_first:
  fixes l1 :: "('s1, 'v) KeyValueStore" and l2 :: "('s2, 'v) KeyValueStore"
    and st :: "('s1, 's2, 'v) MultiTierStore"
  shows
  "take (length (calls st) + 1) (calls (snd (mts_set l1 l2 config st key v options now)))
     = calls st @ [(L1, SetCall key v
                      (options\<lparr>ttlMs := Some (orElse (ttlMs options) (l1TtlMs config))\<rparr>))]
   \<and> (fst (st_set l1 (l1Cache st) key v
              (options\<lparr>ttlMs := Some (orElse (ttlMs options) (l1TtlMs config))\<rparr>) now) = Err e
       \<longrightarrow>
       fst (mts_set l1 l2 config st key v options now) = Err e
       \<and> calls (snd (mts_set l1 l2 config st key v options now))
           = calls st @ [(L1, SetCall key v
                            (options\<lparr>ttlMs := Some (orElse (ttlMs options) (l1TtlMs config))\<rparr>))]
       \<and> l2Cache (snd (mts_set l1 l2 config st key v options now)) = l2Cache st
       \<and> writeBehindQueue (snd (mts_set l1 l2 config st key v options now))
           = writeBehindQueue st)
   \<and> (is_ok (fst (st_set l1 (l1Cache st) key v
              (options\<lparr>ttlMs := Some (orElse (ttlMs options) (l1TtlMs config))\<rparr>) now))
       \<and> writeThrough config \<longrightarrow>
       fst (mts_set l1 l2 config st key v options now) = Ok ()
       \<and> calls (snd (mts_set l1 l2 config st key v options now))
           = calls st @ [(L1, SetCall key v
                            (options\<lparr>ttlMs := Some (orElse (ttlMs options) (l1TtlMs config))\<rparr>)),
                         (L2, SetCall key v
                            (options\<lparr>ttlMs := Some (orElse (ttlMs options) (l2TtlMs config))\<rparr>))]
       \<and> l1Cache (snd (mts_set l1 l2 config st key v options now))
           = snd (st_set l1 (l1Cache st) key v
                    (options\<lparr>ttlMs := Some (orElse (ttlMs options) (l1TtlMs config))\<rparr>) now)
       \<and> l2Cache (snd (mts_set l1 l2 config st key v options now))
           = snd (st_set l2 (l2Cache st) key v
                    (options\<lparr>ttlMs := Some (orElse (ttlMs options) (l2TtlMs config))\<rparr>) now))"
proof -
  let ?o1 = "options\<lparr>ttlMs := Some (orElse (ttlMs options) (l1TtlMs config))\<rparr>"
  let ?o2 = "options\<lparr>ttlMs := Some (orElse (ttlMs options) (l2TtlMs config))\<rparr>"
  let ?m = "mts_set l1 l2 config st key v options now"
  obtain r1 c1 where r1: "st_set l1 (l1Cache st) key v ?o1 now = (r1, c1)"
    by (cases "st_set l1 (l1Cache st) key v ?o1 now")
  obtain r2 c2 where r2: "st_set l2 (l2Cache st) key v ?o2 now = (r2, c2)"
    by (cases "st_set l2 (l2Cache st) key v ?o2 now")
  have a: "take (length (calls st) + 1) (calls (snd ?m)) = calls st @ [(L1, SetCall key v ?o1)]"
    by (cases r1)
       (simp_all add: mts_set_def callL1set_def callL2set_def queueWriteBehind_def r1 r2)
  have b: "fst (st_set l1 (l1Cache st) key v ?o1 now) = Err e \<longrightarrow>
       fst ?m = Err e \<and> calls (snd ?m) = calls st @ [(L1, SetCall key v ?o1)]
       \<and> l2Cache (snd ?m) = l2Cache st \<and> writeBehindQueue (snd ?m) = writeBehindQueue st"
    by (simp add: mts_set_def callL1set_def r1)
  have c: "is_ok (fst (st_set l1 (l1Cache st) key v ?o1 now)) \<and> writeThrough config \<longrightarrow>
       fst ?m = Ok ()
       \<and> calls (snd ?m) = calls st @ [(L1, SetCall key v ?o1), (L2, SetCall key v ?o2)]
       \<and> l1Cache (snd ?m) = snd (st_set l1 (l1Cache st) key v ?o1 now)
       \<and> l2Cache (snd ?m) = snd (st_set l2 (l2Cache st) key v ?o2 now)"
    by (cases r1) (simp_all add: mts_set_def callL1set_def callL2set_def r1 r2)
  from a b c show ?thesis by (intro conjI)
qed

text \<open>
  The witness: two engines under the default configuration (\<open>writeThrough\<close>). A plain
  \<open>set\<close> writes both tiers; a \<open>set\<close> with \<open>overwrite = false\<close> of a key the fast tier
  holds fails at the fast tier; the same \<open>set\<close> where only the durable tier holds the
  key fails at the durable tier and still reports success.
\<close>

theorem tiered_set_fast_tier_first_witness:
  "fst (mts_set stringEngine stringEngine defaultConfig (tiers (newStore None) (newStore None))
          ''k'' ''v'' noSetOptions 0) = Ok ()
   \<and> calls (snd (mts_set stringEngine stringEngine defaultConfig
          (tiers (newStore None) (newStore None)) ''k'' ''v'' noSetOptions 0))
       = [(L1, SetCall ''k'' ''v'' \<lparr>ttlMs = Some 60000, overwrite = None\<rparr>),
          (L2, SetCall ''k'' ''v'' \<lparr>ttlMs = Some 3600000, overwrite = None\<rparr>)]
   \<and> fst (mts_set stringEngine stringEngine defaultConfig (tiers storedAt0 (newStore None))
          ''k'' ''w'' \<lparr>ttlMs = None, overwrite = Some False\<rparr> 10)
       = Err (StoreError OPERATION_FAILED ''k'')
   \<and> calls (snd (mts_set stringEngine stringEngine defaultConfig (tiers storedAt0 (newStore None))
          ''k'' ''w'' \<lparr>ttlMs = None, overwrite = Some False\<rparr> 10))
       = [(L1, SetCall ''k'' ''w'' \<lparr>ttlMs = Some 60000, overwrite = Some False\<rparr>)]
   \<and> fst (st_set stringEngine storedAt0 ''k'' ''w''
            \<lparr>ttlMs = Some 3600000, overwrite = Some False\<rparr> 10)
       = Err (StoreError OPERATION_FAILED ''k'')
   \<and> fst (mts_set stringEngine stringEngine defaultConfig (tiers (newStore None) storedAt0)
          ''k'' ''w'' \<lparr>ttlMs = None, overwrite = Some False\<rparr> 10) = Ok ()"
proof -
  let ?E = stringEngine
  let ?empty = "tiers (newStore None) (newStore None) ::
     (string EnhancedMemoryStore, string EnhancedMemoryStore, string) MultiTierStore"
  let ?inL1 = "tiers storedAt0 (newStore None)"
  let ?inL2 = "tiers (newStore None) storedAt0"
  let ?nw = "\<lparr>ttlMs = None, overwrite = Some False\<rparr>"
  have cfg: "writeThrough defaultConfig" "l1TtlMs defaultConfig = 60000"
    "l2TtlMs defaultConfig = 3600000"
    by (simp_all add: defaultConfig_def mergeConfig_def)
  have h1: "is_ok (fst (st_set ?E (l1Cache ?empty) ''k'' ''v''
               (noSetOptions\<lparr>ttlMs := Some (orElse (ttlMs noSetOptions) (l1TtlMs defaultConfig))\<rparr>) 0))"
    by (simp add: engine_eval tiers_def)
  have h2: "fst (st_set ?E (l1Cache ?inL1) ''k'' ''w''
               (?nw\<lparr>ttlMs := Some (orElse (ttlMs ?nw) (l1TtlMs defaultConfig))\<rparr>) 10)
             = Err (StoreError OPERATION_FAILED ''k'')"
    by (simp add: storedAt0_eq engine_eval tiers_def)
  have h3: "is_ok (fst (st_set ?E (l1Cache ?inL2) ''k'' ''w''
               (?nw\<lparr>ttlMs := Some (orElse (ttlMs ?nw) (l1TtlMs defaultConfig))\<rparr>) 10))"
    by (simp add: engine_eval tiers_def)
  have h4: "fst (st_set ?E storedAt0 ''k'' ''w''
               \<lparr>ttlMs = Some 3600000, overwrite = Some False\<rparr> 10)
             = Err (StoreError OPERATION_FAILED ''k'')"
    by (simp add: storedAt0_eq engine_eval)
  note t1 = tiered_set_fast_tier_first [where ?l1.0 = ?E and ?l2.0 = ?E and st = ?empty
      and key = "''k''" and v = "''v''" and options = noSetOptions and now = 0
      and config = defaultConfig]
  note t2 = tiered_set_fast_tier_first [where ?l1.0 = ?E and ?l2.0 = ?E and st = ?inL1
      and key = "''k''" and v = "''w''" and options = ?nw and now = 10
      and config = defaultConfig and e = "StoreError OPERATION_FAILED ''k''"]
  note t3 = tiered_set_fast_tier_first [where ?l1.0 = ?E and ?l2.0 = ?E and st = ?inL2
      and key = "''k''" and v = "''w''" and options = ?nw and now = 10
      and config = defaultConfig]
  from t1 h1 cfg(1)
  have a: "fst (mts_set ?E ?E defaultConfig ?empty ''k'' ''v'' noSetOptions 0) = Ok ()"
    "calls (snd (mts_set ?E ?E defaultConfig ?empty ''k'' ''v'' noSetOptions 0))
       = calls ?empty @
         [(L1, SetCall ''k'' ''v''
            (noSetOptions\<lparr>ttlMs := Some (orElse (ttlMs noSetOptions) (l1TtlMs defaultConfig))\<rparr>)),
          (L2, SetCall ''k'' ''v''
            (noSetOptions\<lparr>ttlMs := Some (orElse (ttlMs noSetOptions) (l2TtlMs defaultConfig))\<rparr>))]"
    by blast+
  from t2 h2
  have b: "fst (mts_set ?E ?E defaultConfig ?inL1 ''k'' ''w'' ?nw 10)
             = Err (StoreError OPERATION_FAILED ''k'')"
    "calls (snd (mts_set ?E ?E defaultConfig ?inL1 ''k'' ''w'' ?nw 10))
       = calls ?inL1 @
         [(L1, SetCall ''k'' ''w'' (?nw\<lparr>ttlMs := Some (orElse (ttlMs ?nw) (l1TtlMs defaultConfig))\<rparr>))]"
    by blast+
  from t3 h3 cfg(1)
  have c: "fst (mts_set ?E ?E defaultConfig ?inL2 ''k'' ''w'' ?nw 10) = Ok ()"
    by blast
  from a b c h4 show ?thesis
    by (simp add: cfg noSetOptions_def tiers_def)
qed

text \<open>
  C10. A \<open>get\<close> of the Cache Engine with a default value answers a missing or expired
  key with that default, as a success, and counts a miss. The tiered store over a Cache
  Engine therefore takes every such answer for a fast-tier hit: a \<open>get\<close> that carries a
  default value returns what the fast tier answered and the durable tier receives no
  call.
\<close>

theorem default_value_masks_fast_tier_miss:
  fixes l2 :: "('s2, 'v) KeyValueStore"
    and est :: "('v EnhancedMemoryStore, 's2, 'v) MultiTierStore"
  shows
  "(defaultValue options = Some d
    \<and> (map_of (smap s) key = None
        \<or> map_option (\<lambda>entry. isExpired entry now) (map_of (smap s) key) = Some True) \<longrightarrow>
      fst (ems_get s key options now) = Ok (Some d)
      \<and> misses (stats (snd (ems_get s key options now))) = misses (stats s) + 1)
   \<and> (defaultValue options = Some d \<longrightarrow>
      fst (mts_get (enhancedMemoryStore calculateSize) l2 config est key options now)
        = fst (ems_get (l1Cache est) key options now)
      \<and> calls (snd (mts_get (enhancedMemoryStore calculateSize) l2 config est key options now))
          = calls est @ [(L1, GetCall key options)]
      \<and> callsTo L2 (calls (snd (mts_get (enhancedMemoryStore calculateSize) l2 config est
                                    key options now)))
          = callsTo L2 (calls est)
      \<and> l2Cache (snd (mts_get (enhancedMemoryStore calculateSize) l2 config est key options now))
          = l2Cache est)"
proof -
  let ?E = "enhancedMemoryStore calculateSize"
  let ?g = "mts_get ?E l2 config est key options now"
  have a: "defaultValue options = Some d
    \<and> (map_of (smap s) key = None
        \<or> map_option (\<lambda>entry. isExpired entry now) (map_of (smap s) key) = Some True) \<longrightarrow>
      fst (ems_get s key options now) = Ok (Some d)
      \<and> misses (stats (snd (ems_get s key options now))) = misses (stats s) + 1"
    by (cases "map_of (smap s) key")
       (simp_all add: ems_get_def countMiss_def expireLazily_def)
  have b: "defaultValue options = Some d \<longrightarrow>
      fst ?g = fst (ems_get (l1Cache est) key options now)
      \<and> calls (snd ?g) = calls est @ [(L1, GetCall key options)]
      \<and> callsTo L2 (calls (snd ?g)) = callsTo L2 (calls est)
      \<and> l2Cache (snd ?g) = l2Cache est"
  proof
    assume h: "defaultValue options = Some d"
    have get_E: "st_get ?E = ems_get" by (simp add: enhancedMemoryStore_def)
    have "isHit (fst (st_get ?E (l1Cache est) key options now))"
      unfolding get_E by (rule ems_get_default[OF h])
    from mts_get_fast_path[OF this, of l2 config]
    show "fst ?g = fst (ems_get (l1Cache est) key options now)
      \<and> calls (snd ?g) = calls est @ [(L1, GetCall key options)]
      \<and> callsTo L2 (calls (snd ?g)) = callsTo L2 (calls est)
      \<and> l2Cache (snd ?g) = l2Cache est"
      by (simp add: get_E callsTo_append callsTo_single)
  qed
  from a b show ?thesis by (intro conjI)
qed

text \<open>
  The witness: the fast tier is empty and the durable tier holds \<open>k\<close>; a \<open>get\<close> of \<open>k\<close>
  with default value \<open>d\<close> returns \<open>d\<close> and the durable tier is not asked.
\<close>

theorem default_value_masks_fast_tier_miss_witness:
  "fst (ems_get (newStore None) ''k'' \<lparr>refreshTtl = None, defaultValue = Some ''d''\<rparr> 10)
     = Ok (Some ''d'')
   \<and> misses (stats (snd (ems_get (newStore None :: string EnhancedMemoryStore) ''k''
        \<lparr>refreshTtl = None, defaultValue = Some ''d''\<rparr> 10))) = 1
   \<and> fst (mts_get stringEngine stringEngine defaultConfig (tiers (newStore None) storedAt0)
          ''k'' \<lparr>refreshTtl = None, defaultValue = Some ''d''\<rparr> 10) = Ok (Some ''d'')
   \<and> callsTo L2 (calls (snd (mts_get stringEngine stringEngine defaultConfig
          (tiers (newStore None) storedAt0)
          ''k'' \<lparr>refreshTtl = None, defaultValue = Some ''d''\<rparr> 10))) = []"
proof -
  let ?o = "\<lparr>refreshTtl = None, defaultValue = Some ''d''\<rparr>"
  let ?t = "tiers (newStore None) storedAt0"
  note t = default_value_masks_fast_tier_miss [where options = ?o and d = "''d''"
      and s = "newStore None" and key = "''k''" and now = 10 and est = ?t
      and calculateSize = plainStringSize and ?l2.0 = stringEngine and config = defaultConfig]
  have h: "defaultValue ?o = Some ''d''"
    "map_of (smap (newStore None :: string EnhancedMemoryStore)) ''k'' = None"
    by (simp_all add: newStore_def)
  have l1: "l1Cache ?t = newStore None" by (simp add: tiers_def)
  from t h have a: "fst (ems_get (newStore None) ''k'' ?o 10) = Ok (Some ''d'')"
    "misses (stats (snd (ems_get (newStore None :: string EnhancedMemoryStore) ''k'' ?o 10)))
       = misses (stats (newStore None :: string EnhancedMemoryStore)) + 1"
    by blast+
  from t h(1) have b:
    "fst (mts_get (enhancedMemoryStore plainStringSize) stringEngine defaultConfig ?t ''k'' ?o 10)
       = fst (ems_get (l1Cache ?t) ''k'' ?o 10)"
    "callsTo L2 (calls (snd (mts_get (enhancedMemoryStore plainStringSize) stringEngine
        defaultConfig ?t ''k'' ?o 10))) = callsTo L2 (calls ?t)"
    by blast+
  have c: "callsTo L2 (calls ?t) = []" by (simp add: tiers_def callsTo_def)
  from a b c show ?thesis
    by (simp add: tiers_def stringEngine_def newStore_def emptyStats_def)
qed








section \<open>Fetch Orchestration's claims\<close>

lemma retryTrail_cons:
  "es \<noteq> [] \<or> fin \<noteq> None \<Longrightarrow>
     retryTrail d (e # es) fin = FetchErr e # Wait d # retryTrail d es fin"
  by (cases es; cases fin) simp_all

lemma retryLoop_done:
  "\<not> rs_retryCount r \<le> m \<Longrightarrow> retryLoop fetcher m d r = r"
  by (subst retryLoop.simps) simp

lemma retryLoop_success:
  "rs_retryCount r \<le> m \<Longrightarrow> fetcher (rs_fetcher r) = (Inr v, f') \<Longrightarrow>
     retryLoop fetcher m d r
       = r\<lparr>rs_fetchResult := Some (Inr v), rs_fetcher := f',
           rs_events := rs_events r @ [FetchOk v]\<rparr>"
  by (subst retryLoop.simps) simp

lemma retryLoop_failure:
  "rs_retryCount r \<le> m \<Longrightarrow> fetcher (rs_fetcher r) = (Inl e, f') \<Longrightarrow>
     retryLoop fetcher m d r
       = retryLoop fetcher m d
           (r\<lparr>rs_retryCount := rs_retryCount r + 1,
              rs_retryAttempted := True,
              rs_fetchResult := Some (Inl e),
              rs_fetcher := f',
              rs_events := rs_events r @ [FetchErr e] @
                (if rs_retryCount r + 1 \<le> m then [Wait d] else [])\<rparr>)"
  by (subst retryLoop.simps) simp

lemma retryLoop_trail:
  "\<exists>errs fin. loopRan m d r (retryLoop fetcher m d r) errs fin"
proof (induction fetcher m d r rule: retryLoop.induct)
  case (1 fetcher m d r)
  show ?case
  proof (cases "rs_retryCount r \<le> m")
    case False
    then have "loopRan m d r (retryLoop fetcher m d r) [] None"
      by (simp add: retryLoop_done loopRan_def)
    then show ?thesis by blast
  next
    case True
    obtain x f' where fx: "fetcher (rs_fetcher r) = (x, f')"
      by (cases "fetcher (rs_fetcher r)")
    show ?thesis
    proof (cases x)
      case (Inr v)
      with True fx have "loopRan m d r (retryLoop fetcher m d r) [] (Some v)"
        by (simp add: retryLoop_success loopRan_def)
      then show ?thesis by blast
    next
      case (Inl e)
      let ?r1 = "r\<lparr>rs_retryCount := rs_retryCount r + 1,
              rs_retryAttempted := True,
              rs_fetchResult := Some (Inl e),
              rs_fetcher := f',
              rs_events := rs_events r @ [FetchErr e] @
                (if rs_retryCount r + 1 \<le> m then [Wait d] else [])\<rparr>"
      from True fx Inl have step: "retryLoop fetcher m d r = retryLoop fetcher m d ?r1"
        by (simp add: retryLoop_failure)
      from "1.IH"[OF True fx[symmetric] Inl]
      obtain errs fin where ih: "loopRan m d ?r1 (retryLoop fetcher m d ?r1) errs fin"
        by blast
      have "loopRan m d r (retryLoop fetcher m d ?r1) (e # errs) fin"
      proof (cases "rs_retryCount r + 1 \<le> m")
        case more: True
        with ih have ne: "errs \<noteq> [] \<or> fin \<noteq> None" by (simp add: loopRan_def)
        from ih more True show ?thesis
          unfolding loopRan_def retryTrail_cons[OF ne]
          by (auto split: option.splits if_splits)
      next
        case last: False
        with ih have none: "errs = []" "fin = None" by (simp_all add: loopRan_def)
        from ih last True show ?thesis
          unfolding loopRan_def none by simp
      qed
      then have "loopRan m d r (retryLoop fetcher m d r) (e # errs) fin"
        by (simp only: step)
      then show ?thesis by blast
    qed
  qed
qed

lemma errorsOf_append: "errorsOf (xs @ ys) = errorsOf xs @ errorsOf ys"
  by (induction xs rule: errorsOf.induct) simp_all

lemma errorsOf_trail: "errorsOf (retryTrail d errs fin) = errs"
  by (induction d errs fin rule: retryTrail.induct) simp_all

lemma fetches_trail:
  "length (filter isFetch (retryTrail d errs fin))
     = length errs + (if fin = None then 0 else 1)"
  by (induction d errs fin rule: retryTrail.induct) simp_all

lemma fetchOk_trail:
  "filter isFetchOk (retryTrail d errs fin) = (case fin of None \<Rightarrow> [] | Some v \<Rightarrow> [FetchOk v])"
  by (induction d errs fin rule: retryTrail.induct) simp_all

lemma storeSet_trail: "filter isStoreSet (retryTrail d errs fin) = []"
  by (induction d errs fin rule: retryTrail.induct) simp_all

text \<open>\<open>cacheItem\<close> on a hit and on a miss, in terms of the retry loop's final state.\<close>

lemma cacheItem_hit:
  assumes "st_get store s key
             \<lparr>refreshTtl = Some (m_refreshTtl (mergeOptions dflt options)), defaultValue = None\<rparr>
             startTime = (Ok (Some v), s1)"
  shows "events (cacheItem store fetcher dflt s f key options startTime endTime)
           = [StoreGet key \<lparr>refreshTtl = Some (m_refreshTtl (mergeOptions dflt options)),
                             defaultValue = None\<rparr>]"
  using assms by (simp add: cacheItem_def Let_def)

lemma cacheItem_miss:
  assumes "\<not> isHit (fst (st_get store s key
             \<lparr>refreshTtl = Some (m_refreshTtl (mergeOptions dflt options)), defaultValue = None\<rparr>
             startTime))"
  shows "cacheItem store fetcher dflt s f key options startTime endTime =
     (let mergedOptions = mergeOptions dflt options;
          getOptions = \<lparr>refreshTtl = Some (m_refreshTtl mergedOptions), defaultValue = None\<rparr>;
          s1 = snd (st_get store s key getOptions startTime);
          r = retryLoop fetcher (m_maxRetries mergedOptions) (m_retryDelayMs mergedOptions)
                \<lparr>rs_retryCount = 0, rs_retryAttempted = False, rs_fetchResult = None,
                 rs_fetcher = f, rs_events = [StoreGet key getOptions]\<rparr>;
          meta = \<lparr>operationTimeMs = endTime - startTime, cacheHit = False,
                  retryAttempted = rs_retryAttempted r, retryCount = rs_retryCount r\<rparr>
      in case rs_fetchResult r of
           Some (Inr v) \<Rightarrow>
             (let setOptions = \<lparr>ttlMs = Some (m_ttlMs mergedOptions), overwrite = Some True\<rparr>
              in case st_set store s1 key v setOptions endTime of
                   (Ok _, s2) \<Rightarrow>
                     \<lparr>outcome = Ok \<lparr>cr_value = v, fromCache = False, cr_metadata = meta\<rparr>,
                      storeAfter = s2, fetcherAfter = rs_fetcher r,
                      events = rs_events r @ [StoreSet key v setOptions]\<rparr>
                 | (Err storeError, s2) \<Rightarrow>
                     \<lparr>outcome =
                        (if \<not> m_storeOnError mergedOptions
                         then Ok \<lparr>cr_value = v, fromCache = False, cr_metadata = meta\<rparr>
                         else Err (STORE_FAILED key storeError)),
                      storeAfter = s2, fetcherAfter = rs_fetcher r,
                      events = rs_events r @ [StoreSet key v setOptions]\<rparr>)
         | notOk \<Rightarrow>
             \<lparr>outcome =
                (case m_defaultValue mergedOptions of
                   Some d \<Rightarrow> Ok \<lparr>cr_value = d, fromCache = False, cr_metadata = meta\<rparr>
                 | None \<Rightarrow> Err (FETCH_FAILED key (rs_retryCount r) (lastErrorOf notOk))),
              storeAfter = s1, fetcherAfter = rs_fetcher r, events = rs_events r\<rparr>)"
proof -
  let ?g = "st_get store s key
             \<lparr>refreshTtl = Some (m_refreshTtl (mergeOptions dflt options)), defaultValue = None\<rparr>
             startTime"
  obtain r c where rc: "?g = (r, c)" by (cases ?g)
  with assms have "\<not> isHit r" by simp
  then show ?thesis
    by (cases r rule: isHit.cases)
       (simp_all add: cacheItem_def rc Let_def split: option.split sum.split)
qed

text \<open>
  The events of any run: the store read, the trail of a retry loop with the merged
  \<open>retryDelayMs\<close>, and the store write if the loop ended in a success. The failures
  counted are at most \<open>maxRetries + 1\<close> less the success.
\<close>

lemma cacheItem_events:
  fixes store :: "('s, 'v) KeyValueStore"
  shows "\<exists>errs fin.
      events (cacheItem store fetcher dflt s f key options startTime endTime)
        = StoreGet key \<lparr>refreshTtl = Some (m_refreshTtl (mergeOptions dflt options)),
                         defaultValue = None\<rparr>
          # retryTrail (m_retryDelayMs (mergeOptions dflt options)) errs fin
          @ (case fin of
               None \<Rightarrow> []
             | Some v \<Rightarrow> [StoreSet key v \<lparr>ttlMs = Some (m_ttlMs (mergeOptions dflt options)),
                                          overwrite = Some True\<rparr>])
      \<and> int (length errs) + (if fin = None then 0 else 1)
          \<le> max 0 (m_maxRetries (mergeOptions dflt options) + 1)"
proof -
  let ?mo = "mergeOptions dflt options"
  let ?go = "\<lparr>refreshTtl = Some (m_refreshTtl ?mo), defaultValue = None\<rparr> :: 'v GetOptions"
  let ?g = "st_get store s key ?go startTime"
  let ?run = "cacheItem store fetcher dflt s f key options startTime endTime"
  show ?thesis
  proof (cases "isHit (fst ?g)")
    case True
    then obtain v s1 where "?g = (Ok (Some v), s1)"
      by (cases ?g; cases "fst ?g" rule: isHit.cases) auto
    from cacheItem_hit[OF this]
    have "events ?run = StoreGet key ?go # retryTrail (m_retryDelayMs ?mo) [] None
            @ (case None :: 'v option of None \<Rightarrow> []
               | Some v \<Rightarrow> [StoreSet key v \<lparr>ttlMs = Some (m_ttlMs ?mo), overwrite = Some True\<rparr>])"
      by simp
    moreover have "int (length ([] :: string list)) + (if (None :: 'v option) = None then 0 else 1)
                     \<le> max 0 (m_maxRetries ?mo + 1)"
      by simp
    ultimately show ?thesis by blast
  next
    case False
    let ?init = "\<lparr>rs_retryCount = 0, rs_retryAttempted = False, rs_fetchResult = None,
                 rs_fetcher = f, rs_events = [StoreGet key ?go]\<rparr>"
    let ?r = "retryLoop fetcher (m_maxRetries ?mo) (m_retryDelayMs ?mo) ?init"
    obtain errs fin where lr: "loopRan (m_maxRetries ?mo) (m_retryDelayMs ?mo) ?init ?r errs fin"
      using retryLoop_trail by blast
    from lr have ev: "rs_events ?r = StoreGet key ?go # retryTrail (m_retryDelayMs ?mo) errs fin"
      unfolding loopRan_def by simp
    from lr have res: "rs_fetchResult ?r =
          (case fin of Some v \<Rightarrow> Some (Inr v)
           | None \<Rightarrow> if errs = [] then None else Some (Inl (last errs)))"
      unfolding loopRan_def by (cases fin) simp_all
    from lr have bound: "int (length errs) + (if fin = None then 0 else 1)
          \<le> max 0 (m_maxRetries ?mo + 1)"
      unfolding loopRan_def by simp
    have "events ?run = StoreGet key ?go # retryTrail (m_retryDelayMs ?mo) errs fin
            @ (case fin of None \<Rightarrow> []
               | Some v \<Rightarrow> [StoreSet key v \<lparr>ttlMs = Some (m_ttlMs ?mo), overwrite = Some True\<rparr>])"
      unfolding cacheItem_miss[OF False]
      by (cases fin) (auto simp: Let_def ev res split: prod.split result.split)
    with bound show ?thesis by blast
  qed
qed

lemma failTwice_loop:
  "retryLoop failTwice 3 d
     \<lparr>rs_retryCount = 0, rs_retryAttempted = False, rs_fetchResult = None,
      rs_fetcher = 0, rs_events = evs\<rparr>
   = \<lparr>rs_retryCount = 2, rs_retryAttempted = True, rs_fetchResult = Some (Inr 42),
      rs_fetcher = 3,
      rs_events = evs @ [FetchErr ''Simulated failure'', Wait d,
                         FetchErr ''Simulated failure'', Wait d, FetchOk 42]\<rparr>"
  by (simp add: retryLoop.simps failTwice_def)

text \<open>
  C3. On a miss \<open>cacheItem\<close> invokes the fetcher at most \<open>maxRetries + 1\<close> times. The
  events of a run are the store read, then the failed invocations each followed by a
  wait of the same \<open>retryDelayMs\<close> when another invocation follows, then the first
  success, after which no invocation is made, and the store write of its value. With
  the fetcher that fails twice and then returns 42, and \<open>maxRetries = 3\<close>, the result is
  a success with value 42, \<open>retryAttempted = true\<close> and \<open>retryCount = 2\<close>.
\<close>

theorem cacheItem_bounded_retry:
  fixes store :: "('s, 'v) KeyValueStore" and istore :: "('t, int) KeyValueStore"
  shows
  "length (filter isFetch (events (cacheItem store fetcher dflt s f key options startTime endTime)))
     \<le> nat (m_maxRetries (mergeOptions dflt options) + 1)
   \<and> (\<exists>errs fin.
        events (cacheItem store fetcher dflt s f key options startTime endTime)
          = StoreGet key \<lparr>refreshTtl = Some (m_refreshTtl (mergeOptions dflt options)),
                           defaultValue = None\<rparr>
            # retryTrail (m_retryDelayMs (mergeOptions dflt options)) errs fin
            @ (case fin of
                 None \<Rightarrow> []
               | Some v \<Rightarrow> [StoreSet key v \<lparr>ttlMs = Some (m_ttlMs (mergeOptions dflt options)),
                                            overwrite = Some True\<rparr>]))
   \<and> (\<not> isHit (fst (st_get istore t key \<lparr>refreshTtl = Some False, defaultValue = None\<rparr>
                       startTime)) \<longrightarrow>
        outcome (cacheItem istore failTwice dflt t 0 key (retryOptions 3 None) startTime endTime)
          = Ok \<lparr>cr_value = 42, fromCache = False,
                cr_metadata = \<lparr>operationTimeMs = endTime - startTime, cacheHit = False,
                               retryAttempted = True, retryCount = 2\<rparr>\<rparr>
        \<and> filter isFetch (events (cacheItem istore failTwice dflt t 0 key (retryOptions 3 None)
                                     startTime endTime))
            = [FetchErr ''Simulated failure'', FetchErr ''Simulated failure'', FetchOk 42])"
proof -
  let ?mo = "mergeOptions dflt options"
  let ?run = "cacheItem store fetcher dflt s f key options startTime endTime"
  let ?go = "\<lparr>refreshTtl = Some (m_refreshTtl ?mo), defaultValue = None\<rparr> :: 'v GetOptions"
  let ?so = "\<lparr>ttlMs = Some (m_ttlMs ?mo), overwrite = Some True\<rparr>"
  obtain errs fin where ev: "events ?run
      = StoreGet key ?go # retryTrail (m_retryDelayMs ?mo) errs fin
        @ (case fin of None \<Rightarrow> [] | Some v \<Rightarrow> [StoreSet key v ?so])"
    and bound: "int (length errs) + (if fin = None then 0 else 1) \<le> max 0 (m_maxRetries ?mo + 1)"
    using cacheItem_events[of store fetcher dflt s f key options startTime endTime] by blast
  have "length (filter isFetch (events ?run)) = length errs + (if fin = None then 0 else 1)"
    unfolding ev by (cases fin) (simp_all add: fetches_trail)
  with bound have a: "length (filter isFetch (events ?run)) \<le> nat (m_maxRetries ?mo + 1)"
    by (cases fin) auto
  from ev have b: "\<exists>errs fin. events ?run
      = StoreGet key ?go # retryTrail (m_retryDelayMs ?mo) errs fin
        @ (case fin of None \<Rightarrow> [] | Some v \<Rightarrow> [StoreSet key v ?so])"
    by blast
  let ?runB = "cacheItem istore failTwice dflt t 0 key (retryOptions 3 None) startTime endTime"
  have c: "\<not> isHit (fst (st_get istore t key \<lparr>refreshTtl = Some False, defaultValue = None\<rparr>
                       startTime)) \<longrightarrow>
        outcome ?runB
          = Ok \<lparr>cr_value = 42, fromCache = False,
                cr_metadata = \<lparr>operationTimeMs = endTime - startTime, cacheHit = False,
                               retryAttempted = True, retryCount = 2\<rparr>\<rparr>
        \<and> filter isFetch (events ?runB)
            = [FetchErr ''Simulated failure'', FetchErr ''Simulated failure'', FetchOk 42]"
  proof
    assume "\<not> isHit (fst (st_get istore t key \<lparr>refreshTtl = Some False, defaultValue = None\<rparr>
                       startTime))"
    then have miss: "\<not> isHit (fst (st_get istore t key
        \<lparr>refreshTtl = Some (m_refreshTtl (mergeOptions dflt (retryOptions 3 None))),
         defaultValue = None\<rparr> startTime))"
      by (simp add: mergeOptions_def retryOptions_def)
    have mo: "m_maxRetries (mergeOptions dflt (retryOptions 3 None :: int CacheItemOptions)) = 3"
      "\<not> m_storeOnError (mergeOptions dflt (retryOptions 3 None :: int CacheItemOptions))"
      by (simp_all add: mergeOptions_def retryOptions_def)
    show "outcome ?runB
          = Ok \<lparr>cr_value = 42, fromCache = False,
                cr_metadata = \<lparr>operationTimeMs = endTime - startTime, cacheHit = False,
                               retryAttempted = True, retryCount = 2\<rparr>\<rparr>
        \<and> filter isFetch (events ?runB)
            = [FetchErr ''Simulated failure'', FetchErr ''Simulated failure'', FetchOk 42]"
      unfolding cacheItem_miss[OF miss]
      by (simp add: Let_def mo failTwice_loop split: prod.split result.split)
  qed
  from a b c show ?thesis by (intro conjI)
qed

text \<open>
  The witness: the retry test on an empty engine of numbers, from time 0 to time 25.
\<close>

theorem cacheItem_bounded_retry_witness:
  "outcome (cacheItem numberEngine failTwice None (newStore None) 0 ''retry-test''
              (retryOptions 3 None) 0 25)
     = Ok \<lparr>cr_value = 42, fromCache = False,
           cr_metadata = \<lparr>operationTimeMs = 25, cacheHit = False,
                          retryAttempted = True, retryCount = 2\<rparr>\<rparr>
   \<and> filter isFetch (events (cacheItem numberEngine failTwice None (newStore None) 0
                               ''retry-test'' (retryOptions 3 None) 0 25))
       = [FetchErr ''Simulated failure'', FetchErr ''Simulated failure'', FetchOk 42]
   \<and> length (filter isFetch (events (cacheItem numberEngine failTwice None (newStore None) 0
                               ''retry-test'' (retryOptions 3 None) 0 25))) \<le> 4"
proof -
  note t = cacheItem_bounded_retry [where store = numberEngine and istore = numberEngine
      and fetcher = failTwice and dflt = None and s = "newStore None" and t = "newStore None"
      and f = 0 and key = "''retry-test''" and options = "retryOptions 3 None"
      and startTime = 0 and endTime = 25]
  have h: "\<not> isHit (fst (st_get numberEngine (newStore None) ''retry-test''
                          \<lparr>refreshTtl = Some False, defaultValue = None\<rparr> 0))"
    by (simp add: numberEngine_def enhancedMemoryStore_def ems_get_def newStore_def)
  have m: "nat (m_maxRetries (mergeOptions None (retryOptions 3 None :: int CacheItemOptions)) + 1)
             = 4"
    by (simp add: mergeOptions_def retryOptions_def)
  from t h m show ?thesis by simp
qed

lemma ems_get_miss_absent:
  assumes "\<not> isHit (fst (ems_get s key options now))"
  shows "map_of (smap (snd (ems_get s key options now))) key = None"
proof (cases "map_of (smap s) key")
  case None
  then show ?thesis by (simp add: ems_get_def countMiss_def)
next
  case (Some entry)
  with assms have "isExpired entry now"
    by (auto simp: ems_get_def Let_def split: if_splits)
  with Some show ?thesis
    by (simp add: ems_get_def countMiss_def expireLazily_def delete_conv')
qed

text \<open>
  C4. On a miss where every fetcher invocation of the run fails: with a default value
  configured the call succeeds with that value and \<open>fromCache = false\<close>; without one it
  fails with \<open>FETCH_FAILED\<close> carrying the number of invocations made and the message of
  the last one (\<open>Unknown error\<close> where that message is empty or no invocation was made).
  In both cases \<open>store.set\<close> is not called and the store is left as the read left it; on
  the Cache Engine the key is then absent from the map.
\<close>

theorem cacheItem_fallback_after_failures:
  fixes store :: "('s, 'v) KeyValueStore"
  shows
  "(\<not> isHit (fst (st_get store s key
        \<lparr>refreshTtl = Some (m_refreshTtl (mergeOptions dflt options)), defaultValue = None\<rparr>
        startTime))
    \<and> filter isFetchOk (events (cacheItem store fetcher dflt s f key options startTime endTime)) = []
    \<longrightarrow>
      (case ci_defaultValue options of
         Some d \<Rightarrow>
           outcome (cacheItem store fetcher dflt s f key options startTime endTime)
             = Ok \<lparr>cr_value = d, fromCache = False,
                   cr_metadata =
                     \<lparr>operationTimeMs = endTime - startTime, cacheHit = False,
                      retryAttempted =
                        (errorsOf (events (cacheItem store fetcher dflt s f key options
                                             startTime endTime)) \<noteq> []),
                      retryCount =
                        int (length (filter isFetch
                               (events (cacheItem store fetcher dflt s f key options
                                          startTime endTime))))\<rparr>\<rparr>
       | None \<Rightarrow>
           outcome (cacheItem store fetcher dflt s f key options startTime endTime)
             = Err (FETCH_FAILED key
                      (int (length (filter isFetch
                              (events (cacheItem store fetcher dflt s f key options
                                         startTime endTime)))))
                      (if errorsOf (events (cacheItem store fetcher dflt s f key options
                                              startTime endTime)) = []
                          \<or> last (errorsOf (events (cacheItem store fetcher dflt s f key options
                                                      startTime endTime))) = []
                       then ''Unknown error''
                       else last (errorsOf (events (cacheItem store fetcher dflt s f key options
                                                      startTime endTime))))))
      \<and> filter isStoreSet (events (cacheItem store fetcher dflt s f key options startTime endTime))
          = []
      \<and> storeAfter (cacheItem store fetcher dflt s f key options startTime endTime)
          = snd (st_get store s key
                   \<lparr>refreshTtl = Some (m_refreshTtl (mergeOptions dflt options)),
                    defaultValue = None\<rparr> startTime))
   \<and> (\<not> isHit (fst (ems_get es key
        \<lparr>refreshTtl = Some (m_refreshTtl (mergeOptions dflt options)), defaultValue = None\<rparr>
        startTime))
      \<and> filter isFetchOk (events (cacheItem (enhancedMemoryStore calculateSize) fetcher dflt
                                     es f key options startTime endTime)) = []
      \<longrightarrow>
        map_of (smap (storeAfter (cacheItem (enhancedMemoryStore calculateSize) fetcher dflt
                                     es f key options startTime endTime))) key = None)"
proof -
  have general: "\<And>(st :: ('x, 'v) KeyValueStore) x.
    \<not> isHit (fst (st_get st x key
        \<lparr>refreshTtl = Some (m_refreshTtl (mergeOptions dflt options)), defaultValue = None\<rparr>
        startTime)) \<Longrightarrow>
    filter isFetchOk (events (cacheItem st fetcher dflt x f key options startTime endTime)) = [] \<Longrightarrow>
    \<exists>errs r.
      cacheItem st fetcher dflt x f key options startTime endTime
        = \<lparr>outcome =
             (case ci_defaultValue options of
                Some d \<Rightarrow> Ok \<lparr>cr_value = d, fromCache = False,
                              cr_metadata = \<lparr>operationTimeMs = endTime - startTime,
                                             cacheHit = False, retryAttempted = (errs \<noteq> []),
                                             retryCount = int (length errs)\<rparr>\<rparr>
              | None \<Rightarrow> Err (FETCH_FAILED key (int (length errs))
                               (if errs = [] \<or> last errs = [] then ''Unknown error''
                                else last errs))),
           storeAfter = snd (st_get st x key
                               \<lparr>refreshTtl = Some (m_refreshTtl (mergeOptions dflt options)),
                                defaultValue = None\<rparr> startTime),
           fetcherAfter = r,
           events = StoreGet key \<lparr>refreshTtl = Some (m_refreshTtl (mergeOptions dflt options)),
                                  defaultValue = None\<rparr>
                    # retryTrail (m_retryDelayMs (mergeOptions dflt options)) errs None\<rparr>"
  proof -
    fix st :: "('x, 'v) KeyValueStore" and x
    let ?mo = "mergeOptions dflt options"
    let ?go = "\<lparr>refreshTtl = Some (m_refreshTtl ?mo), defaultValue = None\<rparr> :: 'v GetOptions"
    let ?so = "\<lparr>ttlMs = Some (m_ttlMs ?mo), overwrite = Some True\<rparr>"
    let ?run = "cacheItem st fetcher dflt x f key options startTime endTime"
    let ?init = "\<lparr>rs_retryCount = 0, rs_retryAttempted = False, rs_fetchResult = None,
                 rs_fetcher = f, rs_events = [StoreGet key ?go]\<rparr>"
    let ?r = "retryLoop fetcher (m_maxRetries ?mo) (m_retryDelayMs ?mo) ?init"
    assume miss: "\<not> isHit (fst (st_get st x key ?go startTime))"
      and allfail: "filter isFetchOk (events ?run) = []"
    obtain errs fin where lr: "loopRan (m_maxRetries ?mo) (m_retryDelayMs ?mo) ?init ?r errs fin"
      using retryLoop_trail by blast
    from lr have ev: "rs_events ?r = StoreGet key ?go # retryTrail (m_retryDelayMs ?mo) errs fin"
      unfolding loopRan_def by simp
    from lr have res: "rs_fetchResult ?r =
          (case fin of Some v \<Rightarrow> Some (Inr v)
           | None \<Rightarrow> if errs = [] then None else Some (Inl (last errs)))"
      unfolding loopRan_def by (cases fin) simp_all
    from lr have cnt: "rs_retryCount ?r = int (length errs)"
      and att: "rs_retryAttempted ?r = (errs \<noteq> [])"
      unfolding loopRan_def by simp_all
    have fin: "fin = None"
    proof (cases fin)
      case None
      then show ?thesis .
    next
      case (Some v)
      have "events ?run = rs_events ?r @ [StoreSet key v ?so]"
        unfolding cacheItem_miss[OF miss]
        by (simp add: Let_def res Some split: prod.split result.split)
      then have "filter isFetchOk (events ?run) = [FetchOk v]"
        by (simp add: ev Some fetchOk_trail)
      with allfail show ?thesis by simp
    qed
    have md: "m_defaultValue ?mo = ci_defaultValue options"
      by (simp add: mergeOptions_def)
    have "?run = \<lparr>outcome =
             (case ci_defaultValue options of
                Some d \<Rightarrow> Ok \<lparr>cr_value = d, fromCache = False,
                              cr_metadata = \<lparr>operationTimeMs = endTime - startTime,
                                             cacheHit = False, retryAttempted = (errs \<noteq> []),
                                             retryCount = int (length errs)\<rparr>\<rparr>
              | None \<Rightarrow> Err (FETCH_FAILED key (int (length errs))
                               (if errs = [] \<or> last errs = [] then ''Unknown error''
                                else last errs))),
           storeAfter = snd (st_get st x key ?go startTime),
           fetcherAfter = rs_fetcher ?r,
           events = StoreGet key ?go # retryTrail (m_retryDelayMs ?mo) errs None\<rparr>"
      unfolding cacheItem_miss[OF miss]
      by (cases "errs = []")
         (simp_all add: Let_def res fin ev cnt att md split: option.split)
    then show "\<exists>errs r. ?run = \<lparr>outcome =
             (case ci_defaultValue options of
                Some d \<Rightarrow> Ok \<lparr>cr_value = d, fromCache = False,
                              cr_metadata = \<lparr>operationTimeMs = endTime - startTime,
                                             cacheHit = False, retryAttempted = (errs \<noteq> []),
                                             retryCount = int (length errs)\<rparr>\<rparr>
              | None \<Rightarrow> Err (FETCH_FAILED key (int (length errs))
                               (if errs = [] \<or> last errs = [] then ''Unknown error''
                                else last errs))),
           storeAfter = snd (st_get st x key ?go startTime),
           fetcherAfter = r,
           events = StoreGet key ?go # retryTrail (m_retryDelayMs ?mo) errs None\<rparr>"
      by blast
  qed
  let ?mo = "mergeOptions dflt options"
  let ?go = "\<lparr>refreshTtl = Some (m_refreshTtl ?mo), defaultValue = None\<rparr> :: 'v GetOptions"
  let ?run = "cacheItem store fetcher dflt s f key options startTime endTime"
  let ?E = "enhancedMemoryStore calculateSize"
  let ?runE = "cacheItem ?E fetcher dflt es f key options startTime endTime"
  have a: "\<not> isHit (fst (st_get store s key ?go startTime))
    \<and> filter isFetchOk (events ?run) = [] \<longrightarrow>
      (case ci_defaultValue options of
         Some d \<Rightarrow>
           outcome ?run
             = Ok \<lparr>cr_value = d, fromCache = False,
                   cr_metadata =
                     \<lparr>operationTimeMs = endTime - startTime, cacheHit = False,
                      retryAttempted = (errorsOf (events ?run) \<noteq> []),
                      retryCount = int (length (filter isFetch (events ?run)))\<rparr>\<rparr>
       | None \<Rightarrow>
           outcome ?run
             = Err (FETCH_FAILED key (int (length (filter isFetch (events ?run))))
                      (if errorsOf (events ?run) = [] \<or> last (errorsOf (events ?run)) = []
                       then ''Unknown error'' else last (errorsOf (events ?run)))))
      \<and> filter isStoreSet (events ?run) = []
      \<and> storeAfter ?run = snd (st_get store s key ?go startTime)"
  proof
    assume h: "\<not> isHit (fst (st_get store s key ?go startTime))
      \<and> filter isFetchOk (events ?run) = []"
    from general[of store s] h obtain errs r where run: "?run = \<lparr>outcome =
             (case ci_defaultValue options of
                Some d \<Rightarrow> Ok \<lparr>cr_value = d, fromCache = False,
                              cr_metadata = \<lparr>operationTimeMs = endTime - startTime,
                                             cacheHit = False, retryAttempted = (errs \<noteq> []),
                                             retryCount = int (length errs)\<rparr>\<rparr>
              | None \<Rightarrow> Err (FETCH_FAILED key (int (length errs))
                               (if errs = [] \<or> last errs = [] then ''Unknown error''
                                else last errs))),
           storeAfter = snd (st_get store s key ?go startTime),
           fetcherAfter = r,
           events = StoreGet key ?go # retryTrail (m_retryDelayMs ?mo) errs None\<rparr>"
      by blast
    show "(case ci_defaultValue options of
         Some d \<Rightarrow>
           outcome ?run
             = Ok \<lparr>cr_value = d, fromCache = False,
                   cr_metadata =
                     \<lparr>operationTimeMs = endTime - startTime, cacheHit = False,
                      retryAttempted = (errorsOf (events ?run) \<noteq> []),
                      retryCount = int (length (filter isFetch (events ?run)))\<rparr>\<rparr>
       | None \<Rightarrow>
           outcome ?run
             = Err (FETCH_FAILED key (int (length (filter isFetch (events ?run))))
                      (if errorsOf (events ?run) = [] \<or> last (errorsOf (events ?run)) = []
                       then ''Unknown error'' else last (errorsOf (events ?run)))))
      \<and> filter isStoreSet (events ?run) = []
      \<and> storeAfter ?run = snd (st_get store s key ?go startTime)"
      unfolding run
      by (simp add: errorsOf_trail fetches_trail storeSet_trail split: option.split)
  qed
  have b: "\<not> isHit (fst (ems_get es key ?go startTime))
      \<and> filter isFetchOk (events ?runE) = [] \<longrightarrow>
        map_of (smap (storeAfter ?runE)) key = None"
  proof
    assume h: "\<not> isHit (fst (ems_get es key ?go startTime))
      \<and> filter isFetchOk (events ?runE) = []"
    have get_E: "st_get ?E = ems_get" by (simp add: enhancedMemoryStore_def)
    from h have miss: "\<not> isHit (fst (st_get ?E es key ?go startTime))" by (simp add: get_E)
    from general[of ?E es] miss h obtain errs r where run: "?runE = \<lparr>outcome =
             (case ci_defaultValue options of
                Some d \<Rightarrow> Ok \<lparr>cr_value = d, fromCache = False,
                              cr_metadata = \<lparr>operationTimeMs = endTime - startTime,
                                             cacheHit = False, retryAttempted = (errs \<noteq> []),
                                             retryCount = int (length errs)\<rparr>\<rparr>
              | None \<Rightarrow> Err (FETCH_FAILED key (int (length errs))
                               (if errs = [] \<or> last errs = [] then ''Unknown error''
                                else last errs))),
           storeAfter = snd (st_get ?E es key ?go startTime),
           fetcherAfter = r,
           events = StoreGet key ?go # retryTrail (m_retryDelayMs ?mo) errs None\<rparr>"
      by blast
    from h have "map_of (smap (snd (ems_get es key ?go startTime))) key = None"
      by (simp add: ems_get_miss_absent)
    then show "map_of (smap (storeAfter ?runE)) key = None"
      unfolding run by (simp add: get_E)
  qed
  from a b show ?thesis by (intro conjI)
qed

text \<open>
  The witness: the fetcher that always throws, on an empty engine, with \<open>maxRetries = 1\<close>,
  once with the default value \<open>999\<close> and once without.
\<close>

theorem cacheItem_fallback_after_failures_witness:
  "outcome (cacheItem stringEngine alwaysFails None (newStore None) 0 ''fail-test''
              (retryOptions 1 (Some ''999'')) 0 25)
     = Ok \<lparr>cr_value = ''999'', fromCache = False,
           cr_metadata = \<lparr>operationTimeMs = 25, cacheHit = False,
                          retryAttempted = True, retryCount = 2\<rparr>\<rparr>
   \<and> map_of (smap (storeAfter (cacheItem stringEngine alwaysFails None (newStore None) 0
                                  ''fail-test'' (retryOptions 1 (Some ''999'')) 0 25)))
        ''fail-test'' = None
   \<and> filter isStoreSet (events (cacheItem stringEngine alwaysFails None (newStore None) 0
                                  ''fail-test'' (retryOptions 1 (Some ''999'')) 0 25)) = []
   \<and> outcome (cacheItem stringEngine alwaysFails None (newStore None) 0 ''fail-test''
              (retryOptions 1 None) 0 25)
     = Err (FETCH_FAILED ''fail-test'' 2 ''Always fails'')"
proof -
  let ?d = "retryOptions 1 (Some ''999'')"
  let ?n = "retryOptions 1 None :: string CacheItemOptions"
  let ?go = "\<lparr>refreshTtl = Some False, defaultValue = None\<rparr> :: string GetOptions"
  let ?trail = "[StoreGet ''fail-test'' ?go, FetchErr ''Always fails'', Wait 10,
                 FetchErr ''Always fails'']"
  let ?runD = "cacheItem stringEngine alwaysFails None (newStore None) 0 ''fail-test'' ?d 0 25"
  let ?runE = "cacheItem (enhancedMemoryStore plainStringSize) alwaysFails None (newStore None) 0
                 ''fail-test'' ?d 0 25"
  let ?runN = "cacheItem stringEngine alwaysFails None (newStore None) 0 ''fail-test'' ?n 0 25"
  have E: "stringEngine = enhancedMemoryStore plainStringSize" by (simp add: stringEngine_def)
  have evD: "events ?runD = ?trail"
    by (simp add: cacheItem_def mergeOptions_def retryOptions_def retryLoop.simps
        alwaysFails_def engine_eval)
  have evN: "events ?runN = ?trail"
    by (simp add: cacheItem_def mergeOptions_def retryOptions_def retryLoop.simps
        alwaysFails_def engine_eval)
  have rD: "m_refreshTtl (mergeOptions None ?d) = False" "ci_defaultValue ?d = Some ''999''"
    and rN: "m_refreshTtl (mergeOptions None ?n) = False" "ci_defaultValue ?n = None"
    by (simp_all add: mergeOptions_def retryOptions_def)
  have miss: "\<not> isHit (fst (st_get stringEngine (newStore None) ''fail-test'' ?go 0))"
    "\<not> isHit (fst (ems_get (newStore None :: string EnhancedMemoryStore) ''fail-test'' ?go 0))"
    by (simp_all add: engine_eval)
  note tD = cacheItem_fallback_after_failures [where store = stringEngine
      and s = "newStore None" and es = "newStore None" and calculateSize = plainStringSize
      and fetcher = alwaysFails and dflt = None and f = 0 and key = "''fail-test''"
      and options = ?d and startTime = 0 and endTime = 25]
  note tN = cacheItem_fallback_after_failures [where store = stringEngine
      and s = "newStore None" and es = "newStore None" and calculateSize = plainStringSize
      and fetcher = alwaysFails and dflt = None and f = 0 and key = "''fail-test''"
      and options = ?n and startTime = 0 and endTime = 25]
  have okD: "filter isFetchOk (events ?runD) = []" and okE: "filter isFetchOk (events ?runE) = []"
    and okN: "filter isFetchOk (events ?runN) = []"
    using evD evN by (simp_all add: E)
  from tD miss okD okE have
    "(case ci_defaultValue ?d of
        Some d \<Rightarrow> outcome ?runD
          = Ok \<lparr>cr_value = d, fromCache = False,
                cr_metadata = \<lparr>operationTimeMs = 25 - 0, cacheHit = False,
                               retryAttempted = (errorsOf (events ?runD) \<noteq> []),
                               retryCount = int (length (filter isFetch (events ?runD)))\<rparr>\<rparr>
      | None \<Rightarrow> outcome ?runD
          = Err (FETCH_FAILED ''fail-test'' (int (length (filter isFetch (events ?runD))))
                  (if errorsOf (events ?runD) = [] \<or> last (errorsOf (events ?runD)) = []
                   then ''Unknown error'' else last (errorsOf (events ?runD)))))"
    and setD: "filter isStoreSet (events ?runD) = []"
    and absent: "map_of (smap (storeAfter ?runE)) ''fail-test'' = None"
    by (simp_all add: rD)
  then have a: "outcome ?runD
     = Ok \<lparr>cr_value = ''999'', fromCache = False,
           cr_metadata = \<lparr>operationTimeMs = 25, cacheHit = False,
                          retryAttempted = True, retryCount = 2\<rparr>\<rparr>"
    by (simp add: rD evD)
  from tN miss okN have
    "(case ci_defaultValue ?n of
        Some d \<Rightarrow> outcome ?runN
          = Ok \<lparr>cr_value = d, fromCache = False,
                cr_metadata = \<lparr>operationTimeMs = 25 - 0, cacheHit = False,
                               retryAttempted = (errorsOf (events ?runN) \<noteq> []),
                               retryCount = int (length (filter isFetch (events ?runN)))\<rparr>\<rparr>
      | None \<Rightarrow> outcome ?runN
          = Err (FETCH_FAILED ''fail-test'' (int (length (filter isFetch (events ?runN))))
                  (if errorsOf (events ?runN) = [] \<or> last (errorsOf (events ?runN)) = []
                   then ''Unknown error'' else last (errorsOf (events ?runN)))))"
    by (simp add: rN)
  then have b: "outcome ?runN = Err (FETCH_FAILED ''fail-test'' 2 ''Always fails'')"
    by (simp add: rN evN)
  from a b setD absent show ?thesis by (simp add: E)
qed

end
